theory Spec2Isabelle
  imports Main "HOL-Library.Word"
begin

unbundle bit_operations_syntax

section \<open>Data model shared by the GATT and AVCTP channel code\<close>

text \<open>
  The development embeds the L2CAP-facing callbacks of
  \<^verbatim>\<open>system/stack/gatt/gatt_main.cc\<close> and
  \<^verbatim>\<open>system/stack/avct/avct_l2c_br.cc\<close>.
  Pointers into the control-block arrays are indices (\<open>None\<close> is the null pointer);
  the arrays that the code mutates through such pointers are stores from indices to
  records. Every call that leaves the embedded functions (the L2CAP interface, timers,
  application callbacks, the message dispatcher, functions of other GATT or AVCTP
  files) is recorded, in program order, as an event of the trace that the state carries.
  Such a call is an event only: what the callee does to its own data is not part of the
  model, and an application callback is taken not to re-enter the stack.
\<close>

type_synonym RawAddress = "48 word"
type_synonym tGATT_IF = "8 word"
type_synonym BT_HDR = "8 word list"

datatype tBT_TRANSPORT = BT_TRANSPORT_AUTO | BT_TRANSPORT_BR_EDR | BT_TRANSPORT_LE

text \<open>
  Modelled from the spec: the enum \<^verbatim>\<open>tGATT_CH_STATE\<close> is declared in
  \<^verbatim>\<open>gatt_int.h\<close>, which is not part of the sources at hand. The five states are
  those of the spec's channel state machine; \<open>gatt_ch_state_val\<close> is the numeric value
  the code compares with \<^verbatim>\<open><\<close>.
\<close>

datatype tGATT_CH_STATE =
  GATT_CH_CLOSE | GATT_CH_CLOSING | GATT_CH_CONN | GATT_CH_CFG | GATT_CH_OPEN


text \<open>The two idle-timeout macros the code passes to \<^verbatim>\<open>GATT_SetIdleTimeout\<close>.\<close>

datatype idle_timeout = GATT_LINK_NO_IDLE_TIMEOUT | GATT_LINK_IDLE_TIMEOUT_WHEN_NO_APP

datatype InterceptAction = FORWARD | DROP

datatype tAVCT_LCB_EVENT =
  AVCT_LCB_LL_OPEN_EVT | AVCT_LCB_LL_CLOSE_EVT | AVCT_LCB_LL_MSG_EVT | AVCT_LCB_LL_CONG_EVT

datatype tAVCT_LCB_EVT =
  Evt_null | Evt_result "16 word" | Evt_cong bool | Evt_p_buf BT_HDR

text \<open>Constants of headers outside the two files, under the names the code uses.\<close>

definition L2CAP_ATT_CID :: "16 word" where
  "L2CAP_ATT_CID = 4"

definition GATT_INVALID_ACL_HANDLE :: "16 word" where
  "GATT_INVALID_ACL_HANDLE = 0xFFFF"

definition GATT_INVALID_CONN_ID :: "16 word" where
  "GATT_INVALID_CONN_ID = 0xFFFF"

definition GATT_CONN_OK :: "16 word" where
  "GATT_CONN_OK = 0"

definition GATT_CONN_L2C_FAILURE :: "16 word" where
  "GATT_CONN_L2C_FAILURE = 1"

definition GATT_CONN_TERMINATE_PEER_USER :: "16 word" where
  "GATT_CONN_TERMINATE_PEER_USER = 0x13"

definition GATT_CONN_TERMINATE_LOCAL_HOST :: "16 word" where
  "GATT_CONN_TERMINATE_LOCAL_HOST = 0x16"

definition L2CAP_DEFAULT_MTU :: "16 word" where
  "L2CAP_DEFAULT_MTU = 672"

definition GATT_DEF_BLE_MTU_SIZE :: "16 word" where
  "GATT_DEF_BLE_MTU_SIZE = 23"

definition GATT_SIZE_OF_SRV_CHG_HNDL_RANGE :: "16 word" where
  "GATT_SIZE_OF_SRV_CHG_HNDL_RANGE = 4"

text \<open>
  Modelled from the spec: the macro \<^verbatim>\<open>GATT_CREATE_CONN_ID\<close> of
  \<^verbatim>\<open>gatt_int.h\<close> is not part of the sources at hand. The spec's
  \<open>logical_id = pack(slot_index, client_id)\<close> is the 16-bit value with the slot index
  in the high byte and the client id in the low byte.
\<close>

definition GATT_CREATE_CONN_ID :: "8 word \<Rightarrow> tGATT_IF \<Rightarrow> 16 word" where
  "GATT_CREATE_CONN_ID tcb_idx gatt_if = push_bit 8 (ucast tcb_idx) OR ucast gatt_if"

subsection \<open>Events of the trace\<close>

datatype effect =
    L2CA_DisconnectReq "16 word"
  | L2CA_RemoveFixedChnl "16 word" RawAddress
  | Stop_all_connections_to_device RawAddress
  | Direct_connect_remove "8 word" RawAddress
  | BTM_AcceptlistRemove RawAddress
  | Gatt_cleanup_upon_disc RawAddress "16 word" tBT_TRANSPORT
  | GATT_SetIdleTimeout RawAddress idle_timeout tBT_TRANSPORT bool
  | Eatt_Disconnect RawAddress
  | Eatt_Connect RawAddress
  | Srv_chg_callback_add_client RawAddress
  | Arbiter_OnLeDisconnect "8 word"
  | Arbiter_OnLeConnect "8 word" "8 word"
  | Btm_remove_acl RawAddress tBT_TRANSPORT
  | Conn_cb tGATT_IF RawAddress "16 word" bool "16 word" tBT_TRANSPORT
  | Congestion_cb tGATT_IF "16 word" bool
  | Gatt_cl_send_next_cmd_inq nat
  | Gatt_data_process nat "16 word" BT_HDR
  | Osi_free BT_HDR
  | On_connection_complete RawAddress
  | GATTS_HandleValueIndication "16 word" "16 word" "16 word" "8 word list"
  | Remote_device_properties_cb RawAddress
  | DIS_ReadDISInfo RawAddress
  | Avct_bcb_event nat tAVCT_LCB_EVENT tAVCT_LCB_EVT

section \<open>GATT: control block, registry and environment\<close>

record tGATT_TCB =
  in_use :: bool
  peer_bda :: RawAddress
  transport :: tBT_TRANSPORT
  tcb_idx :: "8 word"
  att_lcid :: "16 word"
  ch_state :: tGATT_CH_STATE
  payload_size :: "16 word"
  app_hold_link :: "tGATT_IF set"

text \<open>
  A registrant. The callbacks are function pointers that may be null: the field says
  whether one is set, and a call through it is an event of the trace.
\<close>

record tGATT_REG =
  reg_in_use :: bool
  gatt_if :: tGATT_IF
  p_conn_cb :: bool
  p_congestion_cb :: bool
  direct_connect_request :: "RawAddress set"

record tGATTS_SRV_CHG =
  bda :: RawAddress
  srv_changed :: bool

record gatt_state =
  tcb :: "nat \<Rightarrow> tGATT_TCB"
  cl_rcb :: "tGATT_REG list"
  srv_chg_clt_q :: "tGATTS_SRV_CHG list"
  p_srv_chg_callback :: bool
  handle_of_h_r :: "16 word"
  trace :: "effect list"

text \<open>
  What the code reads from outside the two files: feature flags, system properties, and
  the results of functions of other modules. Lookups into the session table take the
  table, so that they see the writes made before the call.
\<close>

record gatt_env =
  use_unified_connection_manager :: bool
  gatt_reconnect_on_bt_on_fix :: bool
  enumerate_gatt_errors :: bool
  gatt_drop_acl_on_out_of_resources_fix :: bool
  CONN_MGR_ID_L2CAP :: "8 word"
  gatt_find_tcb_by_addr :: "(nat \<Rightarrow> tGATT_TCB) \<Rightarrow> RawAddress \<Rightarrow> tBT_TRANSPORT \<Rightarrow> nat option"
  gatt_find_tcb_by_cid :: "(nat \<Rightarrow> tGATT_TCB) \<Rightarrow> 16 word \<Rightarrow> nat option"
  gatt_allocate_tcb_by_bdaddr ::
    "(nat \<Rightarrow> tGATT_TCB) \<Rightarrow> RawAddress \<Rightarrow> tBT_TRANSPORT \<Rightarrow> (nat \<times> (nat \<Rightarrow> tGATT_TCB)) option"
  BTM_GetHCIConnHandle :: "RawAddress \<Rightarrow> tBT_TRANSPORT \<Rightarrow> 16 word"
  direct_connect_remove :: "8 word \<Rightarrow> RawAddress \<Rightarrow> bool"
  get_apps_connecting_to :: "RawAddress \<Rightarrow> tGATT_IF set"
  btm_sec_is_a_bonded_dev :: "RawAddress \<Rightarrow> bool"
  InterceptAttPacket :: "8 word \<Rightarrow> BT_HDR \<Rightarrow> InterceptAction"
  gatt_profile_find_conn_id_by_bd_addr :: "RawAddress \<Rightarrow> 16 word"
  sGATT_DEFAULT_START_HANDLE :: "16 word"
  sGATT_LAST_HANDLE :: "16 word"
  btif_storage_get_stored_remote_name :: "RawAddress \<Rightarrow> string option"
  interop_match_name :: "string \<Rightarrow> bool"
  gatt_is_srv_chg_ind_pending :: "nat \<Rightarrow> bool"
  GATT_MAX_PHY_CHANNEL :: nat
  ACL_GetAdvertisingSetConnectedTo :: "RawAddress \<Rightarrow> 8 word option"
  is_device_le_audio_capable :: "RawAddress \<Rightarrow> bool"
  cached_model_name_len :: "RawAddress \<Rightarrow> nat option"
  get_pts_connect_eatt_before_encryption :: bool

definition emit :: "effect \<Rightarrow> gatt_state \<Rightarrow> gatt_state" where
  "emit e s = s\<lparr>trace := trace s @ [e]\<rparr>"

definition upd_tcb :: "nat \<Rightarrow> (tGATT_TCB \<Rightarrow> tGATT_TCB) \<Rightarrow> gatt_state \<Rightarrow> gatt_state" where
  "upd_tcb i f s = s\<lparr>tcb := (tcb s)(i := f (tcb s i))\<rparr>"

subsection \<open>Channel state accessors\<close>

definition gatt_set_ch_state :: "nat option \<Rightarrow> tGATT_CH_STATE \<Rightarrow> gatt_state \<Rightarrow> gatt_state" where
  "gatt_set_ch_state p_tcb st s =
     (case p_tcb of
        None \<Rightarrow> s
      | Some i \<Rightarrow> upd_tcb i (\<lambda>t. t\<lparr>ch_state := st\<rparr>) s)"

definition gatt_get_ch_state :: "gatt_state \<Rightarrow> nat option \<Rightarrow> tGATT_CH_STATE" where
  "gatt_get_ch_state s p_tcb =
     (case p_tcb of
        None \<Rightarrow> GATT_CH_CLOSE
      | Some i \<Rightarrow> ch_state (tcb s i))"

subsection \<open>The service-changed client list\<close>

text \<open>
  Modelled from the spec: \<^verbatim>\<open>gatt_is_bda_in_the_srv_chg_clt_list\<close> and
  \<^verbatim>\<open>gatt_add_srv_chg_clt\<close> live in \<^verbatim>\<open>gatt_utils.cc\<close>, which is not part of the
  sources at hand. The spec's tracker looks up the record of a peer by its address and
  creates one when there is none; the record found is the first of the queue with that
  address, and a new record goes to the end of the queue.
\<close>

definition gatt_is_bda_in_the_srv_chg_clt_list ::
  "gatt_state \<Rightarrow> RawAddress \<Rightarrow> tGATTS_SRV_CHG option" where
  "gatt_is_bda_in_the_srv_chg_clt_list s a = find (\<lambda>c. bda c = a) (srv_chg_clt_q s)"

definition gatt_add_srv_chg_clt :: "tGATTS_SRV_CHG \<Rightarrow> gatt_state \<Rightarrow> gatt_state" where
  "gatt_add_srv_chg_clt c s = s\<lparr>srv_chg_clt_q := srv_chg_clt_q s @ [c]\<rparr>"

definition gatt_add_a_bonded_dev_for_srv_chg :: "RawAddress \<Rightarrow> gatt_state \<Rightarrow> gatt_state" where
  "gatt_add_a_bonded_dev_for_srv_chg a s =
     (let s1 = gatt_add_srv_chg_clt \<lparr>bda = a, srv_changed = False\<rparr> s
      in if p_srv_chg_callback s1 then emit (Srv_chg_callback_add_client a) s1 else s1)"

subsection \<open>Disconnecting\<close>

definition gatt_l2cif_disconnect :: "gatt_env \<Rightarrow> 16 word \<Rightarrow> gatt_state \<Rightarrow> gatt_state" where
  "gatt_l2cif_disconnect env lcid s =
     (let s1 = emit (L2CA_DisconnectReq lcid) s
      in case gatt_find_tcb_by_cid env (tcb s1) lcid of
           None \<Rightarrow> s1
         | Some i \<Rightarrow>
             let peer = peer_bda (tcb s1 i);
                 s2 = (if gatt_is_bda_in_the_srv_chg_clt_list s1 peer = None
                          \<and> btm_sec_is_a_bonded_dev env peer
                       then gatt_add_a_bonded_dev_for_srv_chg peer s1 else s1)
             in emit (Gatt_cleanup_upon_disc peer GATT_CONN_TERMINATE_LOCAL_HOST
                        BT_TRANSPORT_BR_EDR) s2)"

definition gatt_disconnect :: "gatt_env \<Rightarrow> nat option \<Rightarrow> gatt_state \<Rightarrow> bool \<times> gatt_state" where
  "gatt_disconnect env p_tcb s =
     (case p_tcb of
        None \<Rightarrow> (False, s)
      | Some i \<Rightarrow>
          let st = gatt_get_ch_state s p_tcb;
              peer = peer_bda (tcb s i)
          in if st = GATT_CH_CLOSING then (True, s)
             else if att_lcid (tcb s i) = L2CAP_ATT_CID then
               (if st = GATT_CH_OPEN then
                  (True, gatt_set_ch_state p_tcb GATT_CH_CLOSING
                           (emit (L2CA_RemoveFixedChnl L2CAP_ATT_CID peer) s))
                else
                  let s1 =
                        (if use_unified_connection_manager env then
                           emit (Stop_all_connections_to_device peer) s
                         else
                           let s0 = emit (Direct_connect_remove (CONN_MGR_ID_L2CAP env) peer) s
                           in if \<not> direct_connect_remove env (CONN_MGR_ID_L2CAP env) peer
                              then emit (BTM_AcceptlistRemove peer) s0 else s0)
                  in (True, emit (Gatt_cleanup_upon_disc peer GATT_CONN_TERMINATE_LOCAL_HOST
                                    (transport (tcb s i))) s1))
             else if st = GATT_CH_OPEN \<or> st = GATT_CH_CFG then
               (True, gatt_l2cif_disconnect env (att_lcid (tcb s i)) s)
             else (True, s))"

subsection \<open>Link hold policy\<close>

definition gatt_update_app_hold_link_status ::
  "tGATT_IF \<Rightarrow> tGATT_TCB \<Rightarrow> bool \<Rightarrow> bool \<times> tGATT_TCB" where
  "gatt_update_app_hold_link_status gif t is_add =
     (if is_add then (True, t\<lparr>app_hold_link := insert gif (app_hold_link t)\<rparr>)
      else if gif \<notin> app_hold_link t then (False, t)
      else (True, t\<lparr>app_hold_link := app_hold_link t - {gif}\<rparr>))"

definition gatt_update_app_use_link_flag ::
  "gatt_env \<Rightarrow> tGATT_IF \<Rightarrow> nat option \<Rightarrow> bool \<Rightarrow> bool \<Rightarrow> gatt_state \<Rightarrow> gatt_state" where
  "gatt_update_app_use_link_flag env gif p_tcb is_add check_acl_link s =
     (case p_tcb of
        None \<Rightarrow> s
      | Some i \<Rightarrow>
          let (changed, t') = gatt_update_app_hold_link_status gif (tcb s i) is_add;
              s1 = upd_tcb i (\<lambda>_. t') s
          in if \<not> changed then s
             else if \<not> check_acl_link then s1
             else
               let t = tcb s1 i;
                   is_valid_handle =
                     (BTM_GetHCIConnHandle env (peer_bda t) (transport t)
                        \<noteq> GATT_INVALID_ACL_HANDLE)
               in if is_add then
                    (if att_lcid t = L2CAP_ATT_CID \<and> is_valid_handle then
                       emit (GATT_SetIdleTimeout (peer_bda t) GATT_LINK_NO_IDLE_TIMEOUT
                               (transport t) True) s1
                     else s1)
                  else if app_hold_link t = {} then
                    (if att_lcid t = L2CAP_ATT_CID \<and> is_valid_handle then
                       emit (GATT_SetIdleTimeout (peer_bda t) GATT_LINK_IDLE_TIMEOUT_WHEN_NO_APP
                               (transport t) False)
                         (emit (Eatt_Disconnect (peer_bda t)) s1)
                     else snd (gatt_disconnect env p_tcb s1))
                  else s1)"

subsection \<open>Service-changed indication\<close>

text \<open>
  \<^verbatim>\<open>UINT16_TO_STREAM\<close> (a macro of \<^verbatim>\<open>bt_types.h\<close>) appends the two bytes of a
  16-bit value, low byte first.
\<close>

definition UINT16_TO_STREAM :: "16 word \<Rightarrow> 8 word list" where
  "UINT16_TO_STREAM u = [ucast u, ucast (drop_bit 8 u)]"

definition gatt_send_srv_chg_ind :: "gatt_env \<Rightarrow> RawAddress \<Rightarrow> gatt_state \<Rightarrow> gatt_state" where
  "gatt_send_srv_chg_ind env peer s =
     (if handle_of_h_r s = 0 then s
      else
        let conn_id = gatt_profile_find_conn_id_by_bd_addr env peer
        in if conn_id = GATT_INVALID_CONN_ID then s
           else
             let handle_range = UINT16_TO_STREAM (sGATT_DEFAULT_START_HANDLE env)
                                  @ UINT16_TO_STREAM (sGATT_LAST_HANDLE env)
             in emit (GATTS_HandleValueIndication conn_id (handle_of_h_r s)
                        GATT_SIZE_OF_SRV_CHG_HNDL_RANGE handle_range) s)"

definition gatt_chk_srv_chg :: "gatt_env \<Rightarrow> tGATTS_SRV_CHG \<Rightarrow> gatt_state \<Rightarrow> gatt_state" where
  "gatt_chk_srv_chg env p_srv_chg_clt s =
     (if srv_changed p_srv_chg_clt then gatt_send_srv_chg_ind env (bda p_srv_chg_clt) s
      else s)"

text \<open>
  Modelled from the spec: \<^verbatim>\<open>gatt_set_srv_chg\<close> and
  \<^verbatim>\<open>gatt_find_the_connected_bda\<close> live in \<^verbatim>\<open>gatt_utils.cc\<close>, which is not part
  of the sources at hand. The first marks the indication as owed for every record of the
  tracker; the second finds the first session at or after a slot index that is in use
  and Open. Slot indices are natural numbers: the \<^verbatim>\<open>uint8_t\<close> counter of the loop
  stays below the size of the session table.
\<close>

definition gatt_set_srv_chg :: "gatt_state \<Rightarrow> gatt_state" where
  "gatt_set_srv_chg s = s\<lparr>srv_chg_clt_q := map (\<lambda>c. c\<lparr>srv_changed := True\<rparr>) (srv_chg_clt_q s)\<rparr>"

definition gatt_find_the_connected_bda :: "gatt_env \<Rightarrow> (nat \<Rightarrow> tGATT_TCB) \<Rightarrow> nat \<Rightarrow> nat option" where
  "gatt_find_the_connected_bda env tcbs start_idx =
     find (\<lambda>i. in_use (tcbs i) \<and> ch_state (tcbs i) = GATT_CH_OPEN)
       [start_idx ..< GATT_MAX_PHY_CHANNEL env]"

definition gatt_proc_srv_chg_body :: "gatt_env \<Rightarrow> nat \<Rightarrow> gatt_state \<Rightarrow> gatt_state" where
  "gatt_proc_srv_chg_body env found_idx s =
     (let a = peer_bda (tcb s found_idx);
          send_indication = \<not> gatt_is_srv_chg_ind_pending env found_idx;
          send_indication =
            (if send_indication then
               (case btif_storage_get_stored_remote_name env a of
                  None \<Rightarrow> send_indication
                | Some remote_name \<Rightarrow>
                    if interop_match_name env remote_name then False else send_indication)
             else send_indication)
      in if send_indication then gatt_send_srv_chg_ind env a s else s)"

function gatt_proc_srv_chg_loop :: "gatt_env \<Rightarrow> nat \<Rightarrow> gatt_state \<Rightarrow> gatt_state" where
  "gatt_proc_srv_chg_loop env start_idx s =
     (case gatt_find_the_connected_bda env (tcb s) start_idx of
        None \<Rightarrow> s
      | Some found_idx \<Rightarrow>
          gatt_proc_srv_chg_loop env (Suc found_idx) (gatt_proc_srv_chg_body env found_idx s))"
  by pat_completeness auto
termination
  by (relation "measure (\<lambda>(env, start_idx, s). GATT_MAX_PHY_CHANNEL env - start_idx)")
     (auto simp: gatt_find_the_connected_bda_def find_Some_iff)

definition gatt_proc_srv_chg :: "gatt_env \<Rightarrow> gatt_state \<Rightarrow> gatt_state" where
  "gatt_proc_srv_chg env s =
     (if \<not> p_srv_chg_callback s \<or> handle_of_h_r s = 0 then s
      else gatt_proc_srv_chg_loop env 0 (gatt_set_srv_chg s))"

subsection \<open>Connection callback fan-out\<close>

text \<open>One round of the loop over the registry, for the registrant \<open>r\<close>.\<close>

definition gatt_send_conn_cback_reg ::
  "gatt_env \<Rightarrow> tGATT_IF set \<Rightarrow> nat \<Rightarrow> tGATT_REG \<Rightarrow> gatt_state \<Rightarrow> tGATT_REG \<times> gatt_state"
where
  "gatt_send_conn_cback_reg env apps i r s =
     (if \<not> reg_in_use r then (r, s)
      else
        let s1 = (if gatt_if r \<in> apps
                  then gatt_update_app_use_link_flag env (gatt_if r) (Some i) True True s
                  else s);
            peer = peer_bda (tcb s1 i);
            hit = (gatt_reconnect_on_bt_on_fix env \<and> peer \<in> direct_connect_request r);
            s2 = (if hit
                  then gatt_update_app_use_link_flag env (gatt_if r) (Some i) True True s1
                  else s1);
            r' = (if hit then r\<lparr>direct_connect_request := direct_connect_request r - {peer}\<rparr>
                  else r);
            s3 = (if p_conn_cb r' then
                    emit (Conn_cb (gatt_if r') (peer_bda (tcb s2 i))
                            (GATT_CREATE_CONN_ID (tcb_idx (tcb s2 i)) (gatt_if r'))
                            True GATT_CONN_OK (transport (tcb s2 i))) s2
                  else s2)
        in (r', s3))"

fun gatt_send_conn_cback_loop ::
  "gatt_env \<Rightarrow> tGATT_IF set \<Rightarrow> nat \<Rightarrow> tGATT_REG list \<Rightarrow> gatt_state \<Rightarrow> tGATT_REG list \<times> gatt_state"
where
  "gatt_send_conn_cback_loop env apps i [] s = ([], s)"
| "gatt_send_conn_cback_loop env apps i (r # rs) s =
     (let (r', s1) = gatt_send_conn_cback_reg env apps i r s;
          (rs', s2) = gatt_send_conn_cback_loop env apps i rs s1
      in (r' # rs', s2))"

definition gatt_send_conn_cback :: "gatt_env \<Rightarrow> nat \<Rightarrow> gatt_state \<Rightarrow> gatt_state" where
  "gatt_send_conn_cback env i s =
     (let apps = (if use_unified_connection_manager env then {}
                  else get_apps_connecting_to env (peer_bda (tcb s i)));
          (rs', s1) = gatt_send_conn_cback_loop env apps i (cl_rcb s) s;
          s2 = s1\<lparr>cl_rcb := rs'\<rparr>;
          s3 = (if \<not> use_unified_connection_manager env
                then emit (On_connection_complete (peer_bda (tcb s2 i))) s2 else s2);
          t = tcb s3 i
      in if att_lcid t = L2CAP_ATT_CID then
           (if app_hold_link t \<noteq> {} then
              emit (GATT_SetIdleTimeout (peer_bda t) GATT_LINK_NO_IDLE_TIMEOUT (transport t) True) s3
            else
              emit (GATT_SetIdleTimeout (peer_bda t) GATT_LINK_IDLE_TIMEOUT_WHEN_NO_APP
                      (transport t) False) s3)
         else s3)"

subsection \<open>The LE fixed channel: connect, congestion, data\<close>

definition check_cached_model_name :: "gatt_env \<Rightarrow> RawAddress \<Rightarrow> gatt_state \<Rightarrow> bool \<times> gatt_state" where
  "check_cached_model_name env bd_addr s =
     (case cached_model_name_len env bd_addr of
        None \<Rightarrow> (False, s)
      | Some len \<Rightarrow>
          if len = 0 then (False, s)
          else (True, emit (Remote_device_properties_cb bd_addr) s))"

text \<open>
  The part of \<^verbatim>\<open>gatt_le_connect_cback\<close> after the session is Open: the advertising
  set, the model name of an LE audio device, and EATT under the PTS option.
\<close>

definition gatt_le_connect_cback_connected ::
  "gatt_env \<Rightarrow> RawAddress \<Rightarrow> nat \<Rightarrow> gatt_state \<Rightarrow> gatt_state" where
  "gatt_le_connect_cback_connected env bd_addr i s =
     (let s1 = (case ACL_GetAdvertisingSetConnectedTo env bd_addr of
                  None \<Rightarrow> s
                | Some advertising_set \<Rightarrow>
                    emit (Arbiter_OnLeConnect (tcb_idx (tcb s i)) advertising_set) s);
          s2 = (if is_device_le_audio_capable env bd_addr then
                  (let (cached, s') = check_cached_model_name env bd_addr s1
                   in if \<not> cached then emit (DIS_ReadDISInfo bd_addr) s' else s')
                else snd (check_cached_model_name env bd_addr s1))
      in if get_pts_connect_eatt_before_encryption env then emit (Eatt_Connect bd_addr) s2
         else s2)"

definition gatt_le_connect_cback ::
  "gatt_env \<Rightarrow> 16 word \<Rightarrow> RawAddress \<Rightarrow> bool \<Rightarrow> 16 word \<Rightarrow> tBT_TRANSPORT \<Rightarrow> gatt_state \<Rightarrow> gatt_state"
where
  "gatt_le_connect_cback env chan bd_addr connected reason tport s =
     (let p_tcb = gatt_find_tcb_by_addr env (tcb s) bd_addr tport
      in if tport = BT_TRANSPORT_BR_EDR then s
         else
           let p_srv_chg_clt = gatt_is_bda_in_the_srv_chg_clt_list s bd_addr;
               s1 = (if p_srv_chg_clt = None \<and> btm_sec_is_a_bonded_dev env bd_addr
                     then gatt_add_a_bonded_dev_for_srv_chg bd_addr s else s)
           in if \<not> connected then
                (let s2 = (case p_tcb of
                             None \<Rightarrow> s1
                           | Some i \<Rightarrow> emit (Arbiter_OnLeDisconnect (tcb_idx (tcb s1 i))) s1)
                 in emit (Gatt_cleanup_upon_disc bd_addr reason tport) s2)
              else
                (case p_tcb of
                   Some i \<Rightarrow>
                     let s2 = (if gatt_get_ch_state s1 p_tcb = GATT_CH_CONN then
                                 gatt_send_conn_cback env i
                                   (upd_tcb i (\<lambda>t. t\<lparr>payload_size := GATT_DEF_BLE_MTU_SIZE\<rparr>)
                                      (gatt_set_ch_state p_tcb GATT_CH_OPEN s1))
                               else s1);
                         s3 = (case p_srv_chg_clt of
                                 None \<Rightarrow> s2
                               | Some c \<Rightarrow> gatt_chk_srv_chg env c s2)
                     in gatt_le_connect_cback_connected env bd_addr i s3
                 | None \<Rightarrow>
                     (case gatt_allocate_tcb_by_bdaddr env (tcb s1) bd_addr BT_TRANSPORT_LE of
                        None \<Rightarrow>
                          if gatt_drop_acl_on_out_of_resources_fix env
                          then emit (Btm_remove_acl bd_addr tport) s1 else s1
                      | Some (i, tcbs) \<Rightarrow>
                          let s2 = upd_tcb i (\<lambda>t. t\<lparr>att_lcid := L2CAP_ATT_CID\<rparr>) (s1\<lparr>tcb := tcbs\<rparr>);
                              s3 = gatt_set_ch_state (Some i) GATT_CH_OPEN s2;
                              s4 = upd_tcb i (\<lambda>t. t\<lparr>payload_size := GATT_DEF_BLE_MTU_SIZE\<rparr>) s3;
                              s5 = gatt_send_conn_cback env i s4;
                              s6 = (case p_srv_chg_clt of
                                      None \<Rightarrow> s5
                                    | Some c \<Rightarrow> gatt_chk_srv_chg env c s5)
                          in gatt_le_connect_cback_connected env bd_addr i s6)))"

definition on_connection_timed_out :: "gatt_env \<Rightarrow> 8 word \<Rightarrow> RawAddress \<Rightarrow> gatt_state \<Rightarrow> gatt_state" where
  "on_connection_timed_out env app_id address s =
     (if enumerate_gatt_errors env
      then gatt_le_connect_cback env L2CAP_ATT_CID address False 0x08 BT_TRANSPORT_LE s
      else gatt_le_connect_cback env L2CAP_ATT_CID address False 0xff BT_TRANSPORT_LE s)"

text \<open>
  The congestion fan-out. The loop reads \<^verbatim>\<open>p_tcb->tcb_idx\<close> without a null check:
  with a null session and a registrant to notify the result is \<open>None\<close>, the crash.
\<close>

fun gatt_channel_congestion_loop ::
  "nat option \<Rightarrow> bool \<Rightarrow> tGATT_REG list \<Rightarrow> gatt_state \<Rightarrow> gatt_state option" where
  "gatt_channel_congestion_loop p_tcb congested [] s = Some s"
| "gatt_channel_congestion_loop p_tcb congested (r # rs) s =
     (if reg_in_use r \<and> p_congestion_cb r then
        (case p_tcb of
           None \<Rightarrow> None
         | Some i \<Rightarrow>
             gatt_channel_congestion_loop p_tcb congested rs
               (emit (Congestion_cb (gatt_if r)
                        (GATT_CREATE_CONN_ID (tcb_idx (tcb s i)) (gatt_if r)) congested) s))
      else gatt_channel_congestion_loop p_tcb congested rs s)"

definition gatt_channel_congestion :: "nat option \<Rightarrow> bool \<Rightarrow> gatt_state \<Rightarrow> gatt_state option" where
  "gatt_channel_congestion p_tcb congested s =
     (let s1 = (case p_tcb of
                  None \<Rightarrow> s
                | Some i \<Rightarrow> if \<not> congested then emit (Gatt_cl_send_next_cmd_inq i) s else s)
      in gatt_channel_congestion_loop p_tcb congested (cl_rcb s1) s1)"

definition gatt_le_cong_cback :: "gatt_env \<Rightarrow> RawAddress \<Rightarrow> bool \<Rightarrow> gatt_state \<Rightarrow> gatt_state option" where
  "gatt_le_cong_cback env remote_bda congested s =
     (case gatt_find_tcb_by_addr env (tcb s) remote_bda BT_TRANSPORT_LE of
        None \<Rightarrow> Some s
      | Some i \<Rightarrow> gatt_channel_congestion (Some i) congested s)"

definition gatt_l2cif_congest_cback :: "gatt_env \<Rightarrow> 16 word \<Rightarrow> bool \<Rightarrow> gatt_state \<Rightarrow> gatt_state option" where
  "gatt_l2cif_congest_cback env lcid congested s =
     (case gatt_find_tcb_by_cid env (tcb s) lcid of
        None \<Rightarrow> Some s
      | Some i \<Rightarrow> gatt_channel_congestion (Some i) congested s)"


subsection \<open>The classic dynamic channel\<close>

definition L2CAP_CONN_OK :: "16 word" where
  "L2CAP_CONN_OK = 0"

definition L2CAP_CONN_NO_RESOURCES :: "16 word" where
  "L2CAP_CONN_NO_RESOURCES = 4"

definition gatt_l2cif_connect_ind_cback ::
  "gatt_env \<Rightarrow> RawAddress \<Rightarrow> 16 word \<Rightarrow> gatt_state \<Rightarrow> gatt_state" where
  "gatt_l2cif_connect_ind_cback env bd_addr lcid s =
     (let (result, p_tcb, s1) =
            (case gatt_find_tcb_by_addr env (tcb s) bd_addr BT_TRANSPORT_BR_EDR of
               None \<Rightarrow>
                 (case gatt_allocate_tcb_by_bdaddr env (tcb s) bd_addr BT_TRANSPORT_BR_EDR of
                    None \<Rightarrow> (L2CAP_CONN_NO_RESOURCES, None, s)
                  | Some (i, tcbs) \<Rightarrow>
                      (L2CAP_CONN_OK, Some i,
                       upd_tcb i (\<lambda>t. t\<lparr>att_lcid := lcid\<rparr>) (s\<lparr>tcb := tcbs\<rparr>)))
             | Some i \<Rightarrow> (L2CAP_CONN_NO_RESOURCES, Some i, s))
      in if result \<noteq> L2CAP_CONN_OK then emit (L2CA_DisconnectReq lcid) s1
         else gatt_set_ch_state p_tcb GATT_CH_CFG s1)"

definition gatt_on_l2cap_error :: "gatt_env \<Rightarrow> 16 word \<Rightarrow> 16 word \<Rightarrow> gatt_state \<Rightarrow> gatt_state" where
  "gatt_on_l2cap_error env lcid result s =
     (case gatt_find_tcb_by_cid env (tcb s) lcid of
        None \<Rightarrow> s
      | Some i \<Rightarrow>
          if gatt_get_ch_state s (Some i) = GATT_CH_CONN then
            emit (Gatt_cleanup_upon_disc (peer_bda (tcb s i)) GATT_CONN_L2C_FAILURE
                    BT_TRANSPORT_BR_EDR) s
          else gatt_l2cif_disconnect env lcid s)"

definition gatt_l2cif_connect_cfm_cback :: "gatt_env \<Rightarrow> 16 word \<Rightarrow> 16 word \<Rightarrow> gatt_state \<Rightarrow> gatt_state" where
  "gatt_l2cif_connect_cfm_cback env lcid result s =
     (case gatt_find_tcb_by_cid env (tcb s) lcid of
        None \<Rightarrow> s
      | Some i \<Rightarrow>
          if gatt_get_ch_state s (Some i) = GATT_CH_CONN \<and> result = L2CAP_CONN_OK
          then gatt_set_ch_state (Some i) GATT_CH_CFG s
          else gatt_on_l2cap_error env lcid result s)"

text \<open>The configuration: \<open>None\<close> when \<^verbatim>\<open>mtu_present\<close> is false, else the offered MTU.\<close>

definition gatt_l2cif_config_ind_cback ::
  "gatt_env \<Rightarrow> 16 word \<Rightarrow> 16 word option \<Rightarrow> gatt_state \<Rightarrow> gatt_state" where
  "gatt_l2cif_config_ind_cback env lcid p_cfg s =
     (case gatt_find_tcb_by_cid env (tcb s) lcid of
        None \<Rightarrow> s
      | Some i \<Rightarrow>
          (case p_cfg of
             Some mtu \<Rightarrow>
               if mtu < L2CAP_DEFAULT_MTU then upd_tcb i (\<lambda>t. t\<lparr>payload_size := mtu\<rparr>) s
               else upd_tcb i (\<lambda>t. t\<lparr>payload_size := L2CAP_DEFAULT_MTU\<rparr>) s
           | None \<Rightarrow> upd_tcb i (\<lambda>t. t\<lparr>payload_size := L2CAP_DEFAULT_MTU\<rparr>) s))"

definition gatt_l2cif_config_cfm_cback ::
  "gatt_env \<Rightarrow> 16 word \<Rightarrow> 16 word option \<Rightarrow> gatt_state \<Rightarrow> gatt_state" where
  "gatt_l2cif_config_cfm_cback env lcid p_cfg s =
     (let s0 = gatt_l2cif_config_ind_cback env lcid p_cfg s
      in case gatt_find_tcb_by_cid env (tcb s0) lcid of
           None \<Rightarrow> s0
         | Some i \<Rightarrow>
             if gatt_get_ch_state s0 (Some i) \<noteq> GATT_CH_CFG then s0
             else
               let s1 = gatt_set_ch_state (Some i) GATT_CH_OPEN s0;
                   peer = peer_bda (tcb s1 i);
                   s2 = (case gatt_is_bda_in_the_srv_chg_clt_list s1 peer of
                           Some c \<Rightarrow> gatt_chk_srv_chg env c s1
                         | None \<Rightarrow>
                             if btm_sec_is_a_bonded_dev env peer
                             then gatt_add_a_bonded_dev_for_srv_chg peer s1 else s1)
               in gatt_send_conn_cback env i s2)"

definition gatt_l2cif_disconnect_ind_cback :: "gatt_env \<Rightarrow> 16 word \<Rightarrow> gatt_state \<Rightarrow> gatt_state" where
  "gatt_l2cif_disconnect_ind_cback env lcid s =
     (case gatt_find_tcb_by_cid env (tcb s) lcid of
        None \<Rightarrow> s
      | Some i \<Rightarrow>
          let peer = peer_bda (tcb s i);
              s1 = (if gatt_is_bda_in_the_srv_chg_clt_list s peer = None
                       \<and> btm_sec_is_a_bonded_dev env peer
                    then gatt_add_a_bonded_dev_for_srv_chg peer s else s)
          in emit (Gatt_cleanup_upon_disc peer GATT_CONN_TERMINATE_PEER_USER
                     BT_TRANSPORT_BR_EDR) s1)"


section \<open>AVCTP browsing channel over L2CAP\<close>

text \<open>
  The channel states and the role bit are declared in \<^verbatim>\<open>avct_int.h\<close> and
  \<^verbatim>\<open>avct_api.h\<close>, outside the sources at hand; the code only compares the states for
  equality and tests the role bit.
\<close>

datatype tAVCT_CH_STATE = AVCT_CH_IDLE | AVCT_CH_CONN | AVCT_CH_CFG | AVCT_CH_OPEN

definition AVCT_PASSIVE :: "8 word" where
  "AVCT_PASSIVE = 4"

record tAVCT_BCB =
  bcb_allocated :: "8 word"
  bcb_peer_addr :: RawAddress
  ch_lcid :: "16 word"
  conflict_lcid :: "16 word"
  bcb_ch_state :: tAVCT_CH_STATE
  ch_result :: "16 word"
  peer_mtu :: "16 word"

record tAVCT_LCB =
  lcb_allocated :: "8 word"
  lcb_peer_addr :: RawAddress

record tAVCT_CCB =
  ccb_allocated :: bool
  p_lcb :: "nat option"
  cc_control :: "8 word"

record avct_state =
  bcb :: "nat \<Rightarrow> tAVCT_BCB"
  lcb :: "nat \<Rightarrow> tAVCT_LCB"
  ccb :: "tAVCT_CCB list"
  avct_trace :: "effect list"

text \<open>
  The lookups of \<^verbatim>\<open>avct_lcb.cc\<close> and \<^verbatim>\<open>avct_bcb_act.cc\<close>, which are outside the
  sources at hand: parameters of the model.
\<close>

record avct_env =
  avct_lcb_by_bd :: "(nat \<Rightarrow> tAVCT_LCB) \<Rightarrow> RawAddress \<Rightarrow> nat option"
  avct_bcb_by_lcb :: "nat \<Rightarrow> nat"
  avct_lcb_by_bcb :: "(nat \<Rightarrow> tAVCT_BCB) \<Rightarrow> nat \<Rightarrow> nat"
  avct_bcb_by_lcid :: "(nat \<Rightarrow> tAVCT_BCB) \<Rightarrow> 16 word \<Rightarrow> nat option"

definition avct_emit :: "effect \<Rightarrow> avct_state \<Rightarrow> avct_state" where
  "avct_emit e s = s\<lparr>avct_trace := avct_trace s @ [e]\<rparr>"

definition upd_bcb :: "nat \<Rightarrow> (tAVCT_BCB \<Rightarrow> tAVCT_BCB) \<Rightarrow> avct_state \<Rightarrow> avct_state" where
  "upd_bcb b f s = s\<lparr>bcb := (bcb s)(b := f (bcb s b))\<rparr>"

fun avct_l2c_br_is_passive_loop :: "nat \<Rightarrow> tAVCT_CCB list \<Rightarrow> bool" where
  "avct_l2c_br_is_passive_loop l [] = False"
| "avct_l2c_br_is_passive_loop l (c # cs) =
     (if ccb_allocated c \<and> p_lcb c = Some l \<and> cc_control c AND AVCT_PASSIVE \<noteq> 0 then True
      else avct_l2c_br_is_passive_loop l cs)"

definition avct_l2c_br_is_passive :: "avct_env \<Rightarrow> avct_state \<Rightarrow> nat \<Rightarrow> bool" where
  "avct_l2c_br_is_passive env s p_bcb =
     avct_l2c_br_is_passive_loop (avct_lcb_by_bcb env (bcb s) p_bcb) (ccb s)"

definition avct_l2c_br_connect_ind_cback ::
  "avct_env \<Rightarrow> RawAddress \<Rightarrow> 16 word \<Rightarrow> avct_state \<Rightarrow> avct_state" where
  "avct_l2c_br_connect_ind_cback env bd_addr lcid s =
     (let p_lcb = avct_lcb_by_bd env (lcb s) bd_addr;
          (result, s1) =
            (case p_lcb of
               None \<Rightarrow> (L2CAP_CONN_NO_RESOURCES, s)
             | Some l \<Rightarrow>
                 let b = avct_bcb_by_lcb env l;
                     s0 = upd_bcb b (\<lambda>x. x\<lparr>bcb_peer_addr := bd_addr\<rparr>) s
                 in if bcb_allocated (bcb s0 b) = 0 then
                      (L2CAP_CONN_OK,
                       upd_bcb b (\<lambda>x. x\<lparr>bcb_allocated := lcb_allocated (lcb s0 l)\<rparr>) s0)
                    else if \<not> avct_l2c_br_is_passive env s0 b
                              \<or> bcb_ch_state (bcb s0 b) = AVCT_CH_OPEN then
                      (L2CAP_CONN_NO_RESOURCES, s0)
                    else
                      (L2CAP_CONN_OK,
                       upd_bcb b (\<lambda>x. x\<lparr>conflict_lcid := ch_lcid x\<rparr>) s0));
          s2 = (if result \<noteq> L2CAP_CONN_OK then avct_emit (L2CA_DisconnectReq lcid) s1 else s1)
      in if result = L2CAP_CONN_OK then
           (case p_lcb of
              None \<Rightarrow> s2
            | Some l \<Rightarrow>
                upd_bcb (avct_bcb_by_lcb env l)
                  (\<lambda>x. x\<lparr>ch_lcid := lcid, bcb_ch_state := AVCT_CH_CFG\<rparr>) s2)
         else s2)"

definition avct_l2c_br_disconnect :: "avct_env \<Rightarrow> 16 word \<Rightarrow> 16 word \<Rightarrow> avct_state \<Rightarrow> avct_state" where
  "avct_l2c_br_disconnect env lcid result s =
     (let s1 = avct_emit (L2CA_DisconnectReq lcid) s
      in case avct_bcb_by_lcid env (bcb s1) lcid of
           None \<Rightarrow> s1
         | Some b \<Rightarrow>
             let res = (if ch_result (bcb s1 b) \<noteq> 0 then ch_result (bcb s1 b) else result);
                 s2 = upd_bcb b (\<lambda>x. x\<lparr>ch_result := 0\<rparr>) s1
             in avct_emit (Avct_bcb_event b AVCT_LCB_LL_CLOSE_EVT (Evt_result res)) s2)"

definition avct_br_on_l2cap_error :: "avct_env \<Rightarrow> 16 word \<Rightarrow> 16 word \<Rightarrow> avct_state \<Rightarrow> avct_state" where
  "avct_br_on_l2cap_error env lcid result s =
     (case avct_bcb_by_lcid env (bcb s) lcid of
        None \<Rightarrow> s
      | Some b \<Rightarrow>
          if bcb_ch_state (bcb s b) = AVCT_CH_CONN \<and> conflict_lcid (bcb s b) = lcid then
            upd_bcb b (\<lambda>x. x\<lparr>conflict_lcid := 0\<rparr>) s
          else
            avct_l2c_br_disconnect env lcid 0 (upd_bcb b (\<lambda>x. x\<lparr>ch_result := result\<rparr>) s))"

definition avct_l2c_br_connect_cfm_cback ::
  "avct_env \<Rightarrow> 16 word \<Rightarrow> 16 word \<Rightarrow> avct_state \<Rightarrow> avct_state" where
  "avct_l2c_br_connect_cfm_cback env lcid result s =
     (case avct_bcb_by_lcid env (bcb s) lcid of
        None \<Rightarrow> s
      | Some b \<Rightarrow>
          if bcb_ch_state (bcb s b) = AVCT_CH_CONN then
            (if result = L2CAP_CONN_OK then upd_bcb b (\<lambda>x. x\<lparr>bcb_ch_state := AVCT_CH_CFG\<rparr>) s
             else s)
          else if conflict_lcid (bcb s b) = lcid then
            (let s1 = (if result = L2CAP_CONN_OK then avct_emit (L2CA_DisconnectReq lcid) s
                       else s)
             in upd_bcb b (\<lambda>x. x\<lparr>conflict_lcid := 0\<rparr>) s1)
          else s)"


section \<open>Concrete sessions, registrants and environments\<close>

definition tcb_le :: tGATT_TCB where
  "tcb_le = \<lparr>in_use = True, peer_bda = 0x112233445566, transport = BT_TRANSPORT_LE,
            tcb_idx = 0, att_lcid = 4, ch_state = GATT_CH_OPEN, payload_size = 23,
            app_hold_link = {1}\<rparr>"

definition tcb_br :: tGATT_TCB where
  "tcb_br = \<lparr>in_use = True, peer_bda = 0xA0B0C0D0E0F0, transport = BT_TRANSPORT_BR_EDR,
            tcb_idx = 1, att_lcid = 0x41, ch_state = GATT_CH_CFG, payload_size = 672,
            app_hold_link = {2}\<rparr>"

definition tcb_free :: tGATT_TCB where
  "tcb_free = \<lparr>in_use = False, peer_bda = 0, transport = BT_TRANSPORT_AUTO,
              tcb_idx = 0, att_lcid = 0, ch_state = GATT_CH_CLOSE, payload_size = 0,
              app_hold_link = {}\<rparr>"

definition reg1 :: tGATT_REG where
  "reg1 = \<lparr>reg_in_use = True, gatt_if = 1, p_conn_cb = True, p_congestion_cb = True,
           direct_connect_request = {0x112233445566}\<rparr>"

definition reg2 :: tGATT_REG where
  "reg2 = \<lparr>reg_in_use = True, gatt_if = 2, p_conn_cb = True, p_congestion_cb = False,
           direct_connect_request = {}\<rparr>"

definition st0 :: gatt_state where
  "st0 = \<lparr>tcb = (\<lambda>_. tcb_free)(0 := tcb_le, 1 := tcb_br),
          cl_rcb = [reg1, reg2],
          srv_chg_clt_q = [\<lparr>bda = 0x112233445566, srv_changed = True\<rparr>],
          p_srv_chg_callback = True,
          handle_of_h_r = 3,
          trace = []\<rparr>"

text \<open>
  An environment: both feature flags of the fan-out off, every link up with ACL handle
  \<open>0x40\<close>, and a suppression list that matches the stored name of every peer.
\<close>

definition env0 :: gatt_env where
  "env0 = \<lparr>use_unified_connection_manager = False,
           gatt_reconnect_on_bt_on_fix = False,
           enumerate_gatt_errors = True,
           gatt_drop_acl_on_out_of_resources_fix = False,
           CONN_MGR_ID_L2CAP = 42,
           gatt_find_tcb_by_addr =
             (\<lambda>tcbs a tr. find (\<lambda>i. in_use (tcbs i) \<and> peer_bda (tcbs i) = a
                                      \<and> transport (tcbs i) = tr) [0, 1, 2]),
           gatt_find_tcb_by_cid =
             (\<lambda>tcbs c. find (\<lambda>i. in_use (tcbs i) \<and> att_lcid (tcbs i) = c) [0, 1, 2]),
           gatt_allocate_tcb_by_bdaddr = (\<lambda>tcbs a tr. None),
           BTM_GetHCIConnHandle = (\<lambda>a tr. 0x40),
           direct_connect_remove = (\<lambda>app a. False),
           get_apps_connecting_to = (\<lambda>a. {}),
           btm_sec_is_a_bonded_dev = (\<lambda>a. True),
           InterceptAttPacket = (\<lambda>idx buf. FORWARD),
           gatt_profile_find_conn_id_by_bd_addr = (\<lambda>a. 7),
           sGATT_DEFAULT_START_HANDLE = 1,
           sGATT_LAST_HANDLE = 0xFFFF,
           btif_storage_get_stored_remote_name = (\<lambda>a. Some ''Peer''),
           interop_match_name = (\<lambda>n. True),
           gatt_is_srv_chg_ind_pending = (\<lambda>i. False),
           GATT_MAX_PHY_CHANNEL = 3,
           ACL_GetAdvertisingSetConnectedTo = (\<lambda>a. None),
           is_device_le_audio_capable = (\<lambda>a. False),
           cached_model_name_len = (\<lambda>a. None),
           get_pts_connect_eatt_before_encryption = False\<rparr>"

text \<open>
  The same with the unified connection manager enabled, and a legacy connection manager
  that names client 1 for every peer.
\<close>

definition env_unified :: gatt_env where
  "env_unified = env0\<lparr>use_unified_connection_manager := True,
                        get_apps_connecting_to := (\<lambda>a. {1})\<rparr>"

definition bcb0 :: tAVCT_BCB where
  "bcb0 = \<lparr>bcb_allocated = 1, bcb_peer_addr = 0x112233445566, ch_lcid = 0x50,
           conflict_lcid = 0, bcb_ch_state = AVCT_CH_CONN, ch_result = 0, peer_mtu = 0\<rparr>"

definition avct_st0 :: avct_state where
  "avct_st0 = \<lparr>bcb = (\<lambda>_. bcb0),
               lcb = (\<lambda>_. \<lparr>lcb_allocated = 1, lcb_peer_addr = 0x112233445566\<rparr>),
               ccb = [\<lparr>ccb_allocated = True, p_lcb = Some 0, cc_control = 5\<rparr>],
               avct_trace = []\<rparr>"

definition avct_env0 :: avct_env where
  "avct_env0 = \<lparr>avct_lcb_by_bd = (\<lambda>lcbs a. if lcb_peer_addr (lcbs 0) = a then Some 0 else None),
                avct_bcb_by_lcb = (\<lambda>l. l),
                avct_lcb_by_bcb = (\<lambda>bcbs b. unat (bcb_allocated (bcbs b)) - 1),
                avct_bcb_by_lcid =
                  (\<lambda>bcbs c. if bcb_allocated (bcbs 0) \<noteq> 0
                                 \<and> (ch_lcid (bcbs 0) = c \<or> conflict_lcid (bcbs 0) = c)
                              then Some 0 else None)\<rparr>"

definition st_conn :: gatt_state where
  "st_conn = st0\<lparr>tcb := (tcb st0)(0 := tcb_le\<lparr>ch_state := GATT_CH_CONN\<rparr>)\<rparr>"

definition st_idle :: gatt_state where
  "st_idle = st0\<lparr>tcb := (tcb st0)(0 := tcb_le\<lparr>app_hold_link := {}\<rparr>)\<rparr>"

definition st_br_conn :: gatt_state where
  "st_br_conn = st0\<lparr>tcb := (tcb st0)(1 := tcb_br\<lparr>ch_state := GATT_CH_CONN\<rparr>)\<rparr>"

definition avct_st_conflict :: avct_state where
  "avct_st_conflict =
     avct_st0\<lparr>bcb := (\<lambda>_. bcb0\<lparr>ch_lcid := 0x60, conflict_lcid := 0x50,
                               bcb_ch_state := AVCT_CH_CFG\<rparr>)\<rparr>"

section \<open>Vocabulary of the statements\<close>

text \<open>Kinds of events, to select them from a trace.\<close>

fun is_Conn_cb :: "effect \<Rightarrow> bool" where
  "is_Conn_cb (Conn_cb g a c k r t) = True"
| "is_Conn_cb _ = False"

fun is_SetIdleTimeout :: "effect \<Rightarrow> bool" where
  "is_SetIdleTimeout (GATT_SetIdleTimeout a v t k) = True"
| "is_SetIdleTimeout _ = False"

fun is_arm_no_app :: "effect \<Rightarrow> bool" where
  "is_arm_no_app (GATT_SetIdleTimeout a GATT_LINK_IDLE_TIMEOUT_WHEN_NO_APP t k) = True"
| "is_arm_no_app _ = False"


text \<open>The session with one more holder, and the registrants that the fan-out makes holders.\<close>

definition hold :: "tGATT_IF \<Rightarrow> tGATT_TCB \<Rightarrow> tGATT_TCB" where
  "hold g t = t\<lparr>app_hold_link := insert g (app_hold_link t)\<rparr>"

definition matching :: "gatt_env \<Rightarrow> tGATT_IF set \<Rightarrow> RawAddress \<Rightarrow> tGATT_REG \<Rightarrow> bool" where
  "matching env apps peer r \<longleftrightarrow>
     reg_in_use r \<and> (gatt_if r \<in> apps
        \<or> gatt_reconnect_on_bt_on_fix env \<and> peer \<in> direct_connect_request r)"

section \<open>Evaluation of the concrete inputs\<close>

lemmas fixture_defs = st0_def env0_def tcb_le_def tcb_br_def tcb_free_def reg1_def reg2_def
  st_conn_def st_idle_def st_br_conn_def bcb0_def avct_st0_def avct_env0_def avct_st_conflict_def

lemmas const_defs = L2CAP_ATT_CID_def GATT_INVALID_ACL_HANDLE_def GATT_INVALID_CONN_ID_def
  GATT_CONN_OK_def GATT_SIZE_OF_SRV_CHG_HNDL_RANGE_def GATT_DEF_BLE_MTU_SIZE_def
  L2CAP_CONN_OK_def L2CAP_CONN_NO_RESOURCES_def GATT_CONN_TERMINATE_LOCAL_HOST_def
  AVCT_PASSIVE_def

lemma conn_id_examples:
  "GATT_CREATE_CONN_ID 0 1 = 1" "GATT_CREATE_CONN_ID 0 2 = 2"
  by (simp_all add: GATT_CREATE_CONN_ID_def)

lemma stream_examples:
  "UINT16_TO_STREAM 1 = [1, 0]" "UINT16_TO_STREAM 0xFFFF = [0xFF, 0xFF]"
  by (simp_all add: UINT16_TO_STREAM_def)

section \<open>Link hold policy\<close>

lemma release_absent_repeated:
  "gif \<notin> app_hold_link t \<Longrightarrow>
   ((\<lambda>u. snd (gatt_update_app_hold_link_status gif u False)) ^^ n) t = t"
  by (induction n) (simp_all add: gatt_update_app_hold_link_status_def)

text \<open>
  Claim C5. Adding a client to the holder set returns true, whether or not the client was
  a holder, and the new holder set is the old one with the client. Removing a client that
  is not a holder returns false and leaves the session as it was, however many times the
  removal is repeated.
\<close>

theorem hold_link_status_idempotent:
  "gatt_update_app_hold_link_status gif t True
     = (True, t\<lparr>app_hold_link := app_hold_link t \<union> {gif}\<rparr>)
   \<and> (gif \<notin> app_hold_link t \<longrightarrow>
        gatt_update_app_hold_link_status gif t False = (False, t)
        \<and> (\<forall>n. ((\<lambda>u. snd (gatt_update_app_hold_link_status gif u False)) ^^ n) t = t))"
proof (intro conjI impI allI)
  show "gatt_update_app_hold_link_status gif t True
     = (True, t\<lparr>app_hold_link := app_hold_link t \<union> {gif}\<rparr>)"
    by (simp add: gatt_update_app_hold_link_status_def)
next
  assume "gif \<notin> app_hold_link t"
  then show "gatt_update_app_hold_link_status gif t False = (False, t)"
    by (simp add: gatt_update_app_hold_link_status_def)
next
  fix n
  assume "gif \<notin> app_hold_link t"
  then show "((\<lambda>u. snd (gatt_update_app_hold_link_status gif u False)) ^^ n) t = t"
    by (rule release_absent_repeated)
qed

theorem hold_link_status_idempotent_witness:
  "(3 :: tGATT_IF) \<notin> app_hold_link tcb_le
   \<and> gatt_update_app_hold_link_status 1 tcb_le True = (True, tcb_le)
   \<and> gatt_update_app_hold_link_status 3 tcb_le False = (False, tcb_le)
   \<and> ((\<lambda>u. snd (gatt_update_app_hold_link_status 3 u False)) ^^ 5) tcb_le = tcb_le"
proof -
  have h: "(3 :: tGATT_IF) \<notin> app_hold_link tcb_le"
    by (simp add: tcb_le_def)
  have "tcb_le\<lparr>app_hold_link := app_hold_link tcb_le \<union> {1}\<rparr> = tcb_le"
    by (simp add: tcb_le_def)
  then show ?thesis
    using h hold_link_status_idempotent [of 3 tcb_le] hold_link_status_idempotent [of 1 tcb_le]
    by simp
qed

section \<open>Disconnecting a session\<close>

text \<open>
  Claim C10. The disconnect entry point returns false exactly for the null session. For
  a session in Closing it returns true and changes nothing; for a session on a dynamic
  channel that is neither Open nor Configuring it returns true and changes nothing, so no
  disconnect request goes to the transport.
\<close>

theorem gatt_disconnect_result:
  "fst (gatt_disconnect env p_tcb s) = (p_tcb \<noteq> None)
   \<and> (ch_state (tcb s i) = GATT_CH_CLOSING \<longrightarrow> gatt_disconnect env (Some i) s = (True, s))
   \<and> (att_lcid (tcb s i) \<noteq> L2CAP_ATT_CID \<and> ch_state (tcb s i) \<noteq> GATT_CH_OPEN
        \<and> ch_state (tcb s i) \<noteq> GATT_CH_CFG \<longrightarrow> gatt_disconnect env (Some i) s = (True, s))"
  by (auto simp: gatt_disconnect_def gatt_get_ch_state_def Let_def split: option.splits)

theorem gatt_disconnect_result_witness:
  "gatt_disconnect env0 None st0 = (False, st0)
   \<and> gatt_disconnect env0 (Some 1) (st0\<lparr>tcb := (tcb st0)(1 := tcb_br\<lparr>ch_state := GATT_CH_CLOSING\<rparr>)\<rparr>)
       = (True, st0\<lparr>tcb := (tcb st0)(1 := tcb_br\<lparr>ch_state := GATT_CH_CLOSING\<rparr>)\<rparr>)
   \<and> gatt_disconnect env0 (Some 1) (st0\<lparr>tcb := (tcb st0)(1 := tcb_br\<lparr>ch_state := GATT_CH_CONN\<rparr>)\<rparr>)
       = (True, st0\<lparr>tcb := (tcb st0)(1 := tcb_br\<lparr>ch_state := GATT_CH_CONN\<rparr>)\<rparr>)"
proof -
  let ?a = "st0\<lparr>tcb := (tcb st0)(1 := tcb_br\<lparr>ch_state := GATT_CH_CLOSING\<rparr>)\<rparr>"
  let ?b = "st0\<lparr>tcb := (tcb st0)(1 := tcb_br\<lparr>ch_state := GATT_CH_CONN\<rparr>)\<rparr>"
  have a: "ch_state (tcb ?a 1) = GATT_CH_CLOSING"
    by (simp add: fixture_defs)
  have b: "att_lcid (tcb ?b 1) \<noteq> L2CAP_ATT_CID \<and> ch_state (tcb ?b 1) \<noteq> GATT_CH_OPEN
        \<and> ch_state (tcb ?b 1) \<noteq> GATT_CH_CFG"
    by (simp add: fixture_defs const_defs)
  have n: "fst (gatt_disconnect env0 None st0) = False"
    using gatt_disconnect_result [of env0 None st0] by simp
  have "snd (gatt_disconnect env0 None st0) = st0"
    by (simp add: gatt_disconnect_def)
  with n have "gatt_disconnect env0 None st0 = (False, st0)"
    by (simp add: prod_eq_iff)
  moreover from a have "gatt_disconnect env0 (Some 1) ?a = (True, ?a)"
    using gatt_disconnect_result [of env0 None ?a 1] by blast
  moreover from b have "gatt_disconnect env0 (Some 1) ?b = (True, ?b)"
    using gatt_disconnect_result [of env0 None ?b 1] by blast
  ultimately show ?thesis by simp
qed

lemma gatt_l2cif_disconnect_trace:
  "\<exists>rest. trace (gatt_l2cif_disconnect env lcid s) = trace s @ L2CA_DisconnectReq lcid # rest
     \<and> filter is_SetIdleTimeout rest = []"
  by (auto simp: gatt_l2cif_disconnect_def Let_def emit_def gatt_add_a_bonded_dev_for_srv_chg_def
      gatt_add_srv_chg_clt_def split: option.splits)

lemma gatt_l2cif_disconnect_no_timer:
  "filter is_SetIdleTimeout (trace (gatt_l2cif_disconnect env lcid s))
     = filter is_SetIdleTimeout (trace s)"
  by (auto simp: gatt_l2cif_disconnect_def Let_def emit_def gatt_add_a_bonded_dev_for_srv_chg_def
      gatt_add_srv_chg_clt_def split: option.splits)

lemma gatt_disconnect_no_timer:
  "filter is_SetIdleTimeout (trace (snd (gatt_disconnect env p s)))
     = filter is_SetIdleTimeout (trace s)"
  by (auto simp: gatt_disconnect_def Let_def emit_def gatt_set_ch_state_def upd_tcb_def
      gatt_l2cif_disconnect_no_timer split: option.splits)

section \<open>The fan-out on session open\<close>

lemma use_link_add:
  "gatt_update_app_use_link_flag env g (Some i) True True s =
     (let t = tcb s i; s1 = upd_tcb i (hold g) s
      in if att_lcid t = L2CAP_ATT_CID
            \<and> BTM_GetHCIConnHandle env (peer_bda t) (transport t) \<noteq> GATT_INVALID_ACL_HANDLE
         then emit (GATT_SetIdleTimeout (peer_bda t) GATT_LINK_NO_IDLE_TIMEOUT (transport t) True) s1
         else s1)"
  by (simp add: gatt_update_app_use_link_flag_def gatt_update_app_hold_link_status_def
      upd_tcb_def hold_def Let_def)

lemma use_link_add_tcb:
  "tcb (gatt_update_app_use_link_flag env g (Some i) True True s) = (tcb s)(i := hold g (tcb s i))"
  by (simp add: use_link_add Let_def upd_tcb_def emit_def)

lemma use_link_add_conn:
  "filter is_Conn_cb (trace (gatt_update_app_use_link_flag env g (Some i) True True s))
     = filter is_Conn_cb (trace s)"
  by (simp add: use_link_add Let_def upd_tcb_def emit_def)

lemma use_link_add_arm:
  "filter is_arm_no_app (trace (gatt_update_app_use_link_flag env g (Some i) True True s))
     = filter is_arm_no_app (trace s)"
  by (simp add: use_link_add Let_def upd_tcb_def emit_def)

lemma reg_tcb:
  "tcb (snd (gatt_send_conn_cback_reg env apps i r s)) =
     (tcb s)(i := (if matching env apps (peer_bda (tcb s i)) r
                   then hold (gatt_if r) (tcb s i) else tcb s i))"
  by (auto simp: gatt_send_conn_cback_reg_def Let_def use_link_add_tcb emit_def hold_def
      matching_def)

lemma reg_conn:
  "filter is_Conn_cb (trace (snd (gatt_send_conn_cback_reg env apps i r s))) =
     filter is_Conn_cb (trace s) @
       (if reg_in_use r \<and> p_conn_cb r
        then [Conn_cb (gatt_if r) (peer_bda (tcb s i))
                (GATT_CREATE_CONN_ID (tcb_idx (tcb s i)) (gatt_if r)) True GATT_CONN_OK
                (transport (tcb s i))]
        else [])"
  by (auto simp: gatt_send_conn_cback_reg_def Let_def use_link_add_tcb use_link_add_conn
      emit_def hold_def)

lemma reg_arm:
  "filter is_arm_no_app (trace (snd (gatt_send_conn_cback_reg env apps i r s))) =
     filter is_arm_no_app (trace s)"
  by (auto simp: gatt_send_conn_cback_reg_def Let_def use_link_add_arm emit_def)

lemma loop_tcb:
  "tcb (snd (gatt_send_conn_cback_loop env apps i rs s)) =
     (tcb s)(i := (tcb s i)\<lparr>app_hold_link :=
        app_hold_link (tcb s i)
          \<union> set (map gatt_if (filter (matching env apps (peer_bda (tcb s i))) rs))\<rparr>)"
proof (induction rs arbitrary: s)
  case Nil
  then show ?case by simp
next
  case (Cons r rs)
  let ?s1 = "snd (gatt_send_conn_cback_reg env apps i r s)"
  let ?m = "matching env apps (peer_bda (tcb s i))"
  have t1: "tcb ?s1 i = (if ?m r then hold (gatt_if r) (tcb s i) else tcb s i)"
    by (simp add: reg_tcb)
  have peer: "peer_bda (tcb ?s1 i) = peer_bda (tcb s i)"
    by (simp add: t1 hold_def)
  have "tcb (snd (gatt_send_conn_cback_loop env apps i (r # rs) s))
          = tcb (snd (gatt_send_conn_cback_loop env apps i rs ?s1))"
    by (simp add: split_beta)
  also have "\<dots> = (tcb ?s1)(i := (tcb ?s1 i)\<lparr>app_hold_link :=
        app_hold_link (tcb ?s1 i) \<union> set (map gatt_if (filter ?m rs))\<rparr>)"
    by (simp only: Cons.IH peer)
  also have "\<dots> = (tcb s)(i := (tcb ?s1 i)\<lparr>app_hold_link :=
        app_hold_link (tcb ?s1 i) \<union> set (map gatt_if (filter ?m rs))\<rparr>)"
    by (simp add: reg_tcb)
  also have "(tcb ?s1 i)\<lparr>app_hold_link :=
        app_hold_link (tcb ?s1 i) \<union> set (map gatt_if (filter ?m rs))\<rparr>
      = (tcb s i)\<lparr>app_hold_link :=
        app_hold_link (tcb s i) \<union> set (map gatt_if (filter ?m (r # rs)))\<rparr>"
    by (simp add: t1 hold_def)
  finally show ?case .
qed

lemma loop_conn:
  "filter is_Conn_cb (trace (snd (gatt_send_conn_cback_loop env apps i rs s))) =
     filter is_Conn_cb (trace s) @
       map (\<lambda>r. Conn_cb (gatt_if r) (peer_bda (tcb s i))
                (GATT_CREATE_CONN_ID (tcb_idx (tcb s i)) (gatt_if r)) True GATT_CONN_OK
                (transport (tcb s i)))
         (filter (\<lambda>r. reg_in_use r \<and> p_conn_cb r) rs)"
proof (induction rs arbitrary: s)
  case Nil
  then show ?case by simp
next
  case (Cons r rs)
  let ?s1 = "snd (gatt_send_conn_cback_reg env apps i r s)"
  have t1: "tcb ?s1 i = (if matching env apps (peer_bda (tcb s i)) r
                         then hold (gatt_if r) (tcb s i) else tcb s i)"
    by (simp add: reg_tcb)
  have same: "peer_bda (tcb ?s1 i) = peer_bda (tcb s i)" "tcb_idx (tcb ?s1 i) = tcb_idx (tcb s i)"
    "transport (tcb ?s1 i) = transport (tcb s i)"
    by (simp_all add: t1 hold_def)
  have "filter is_Conn_cb (trace (snd (gatt_send_conn_cback_loop env apps i (r # rs) s)))
          = filter is_Conn_cb (trace (snd (gatt_send_conn_cback_loop env apps i rs ?s1)))"
    by (simp add: split_beta)
  then show ?case
    by (simp only: Cons.IH same reg_conn) simp
qed

lemma loop_arm:
  "filter is_arm_no_app (trace (snd (gatt_send_conn_cback_loop env apps i rs s))) =
     filter is_arm_no_app (trace s)"
  by (induction rs arbitrary: s) (simp_all add: split_beta reg_arm)

lemma send_conn_tcb:
  "tcb (gatt_send_conn_cback env i s) =
     tcb (snd (gatt_send_conn_cback_loop env
        (if use_unified_connection_manager env then {}
         else get_apps_connecting_to env (peer_bda (tcb s i))) i (cl_rcb s) s))"
  by (simp add: gatt_send_conn_cback_def Let_def split_beta emit_def)

lemma send_conn_trace:
  "trace (gatt_send_conn_cback env i s) =
     (let s1 = snd (gatt_send_conn_cback_loop env
                 (if use_unified_connection_manager env then {}
                  else get_apps_connecting_to env (peer_bda (tcb s i))) i (cl_rcb s) s);
          t = tcb s1 i
      in trace s1
         @ (if \<not> use_unified_connection_manager env then [On_connection_complete (peer_bda t)] else [])
         @ (if att_lcid t = L2CAP_ATT_CID then
              [if app_hold_link t \<noteq> {}
               then GATT_SetIdleTimeout (peer_bda t) GATT_LINK_NO_IDLE_TIMEOUT (transport t) True
               else GATT_SetIdleTimeout (peer_bda t) GATT_LINK_IDLE_TIMEOUT_WHEN_NO_APP
                      (transport t) False]
            else []))"
  by (simp add: gatt_send_conn_cback_def Let_def split_beta emit_def)

lemma send_conn_arm:
  "filter is_arm_no_app (trace (gatt_send_conn_cback env i s)) =
     filter is_arm_no_app (trace s) @
       (if att_lcid (tcb s i) = L2CAP_ATT_CID
           \<and> app_hold_link (tcb (gatt_send_conn_cback env i s) i) = {}
        then [GATT_SetIdleTimeout (peer_bda (tcb s i)) GATT_LINK_IDLE_TIMEOUT_WHEN_NO_APP
                (transport (tcb s i)) False]
        else [])"
  by (simp add: send_conn_trace send_conn_tcb Let_def loop_arm loop_tcb)

section \<open>Releasing the last holder\<close>

text \<open>
  Claim C4, as amended. A release that empties the holder set of a session whose ACL link
  is up, and that asks for the link check (\<open>check_acl_link\<close>), arms the idle timer with
  the no-holders timeout on the fixed LE channel, after dropping EATT; on a dynamic
  channel it runs the disconnect of the session instead and sets no timer: when the
  channel is Open or Configuring the disconnect request goes to L2CAP at once, and in
  every other channel state nothing happens beyond the change of the holder set. A
  release that leaves a holder changes the holder set only. The fan-out on session open
  sets the no-holders timeout only on the fixed channel with an empty holder set.
\<close>

theorem release_last_holder_checked:
  assumes "app_hold_link (tcb s i) = {g}"
    and "BTM_GetHCIConnHandle env (peer_bda (tcb s i)) (transport (tcb s i))
           \<noteq> GATT_INVALID_ACL_HANDLE"
    and "s1 = upd_tcb i (\<lambda>t. t\<lparr>app_hold_link := {}\<rparr>) s"
    and "s' = gatt_update_app_use_link_flag env g (Some i) False True s"
  shows "(att_lcid (tcb s i) = L2CAP_ATT_CID \<longrightarrow>
            s' = emit (GATT_SetIdleTimeout (peer_bda (tcb s i)) GATT_LINK_IDLE_TIMEOUT_WHEN_NO_APP
                         (transport (tcb s i)) False)
                   (emit (Eatt_Disconnect (peer_bda (tcb s i))) s1))
       \<and> (att_lcid (tcb s i) \<noteq> L2CAP_ATT_CID \<longrightarrow>
            s' = snd (gatt_disconnect env (Some i) s1)
            \<and> filter is_SetIdleTimeout (trace s') = filter is_SetIdleTimeout (trace s))
       \<and> (att_lcid (tcb s i) \<noteq> L2CAP_ATT_CID
            \<and> (ch_state (tcb s i) = GATT_CH_OPEN \<or> ch_state (tcb s i) = GATT_CH_CFG) \<longrightarrow>
            (\<exists>rest. trace s' = trace s @ L2CA_DisconnectReq (att_lcid (tcb s i)) # rest))
       \<and> (att_lcid (tcb s i) \<noteq> L2CAP_ATT_CID
            \<and> (ch_state (tcb s i) = GATT_CH_OPEN \<or> ch_state (tcb s i) = GATT_CH_CFG) \<longrightarrow>
            s' = gatt_l2cif_disconnect env (att_lcid (tcb s i)) s1)
       \<and> (att_lcid (tcb s i) \<noteq> L2CAP_ATT_CID
            \<and> ch_state (tcb s i) \<noteq> GATT_CH_OPEN \<and> ch_state (tcb s i) \<noteq> GATT_CH_CFG \<longrightarrow>
            s' = s1)
       \<and> (h \<in> app_hold_link (tcb u j) \<and> app_hold_link (tcb u j) \<noteq> {h} \<longrightarrow>
            gatt_update_app_use_link_flag env h (Some j) False c u
              = upd_tcb j (\<lambda>t. t\<lparr>app_hold_link := app_hold_link t - {h}\<rparr>) u)
       \<and> filter is_arm_no_app (trace (gatt_send_conn_cback env j u)) =
           filter is_arm_no_app (trace u) @
             (if att_lcid (tcb u j) = L2CAP_ATT_CID
                 \<and> app_hold_link (tcb (gatt_send_conn_cback env j u) j) = {}
              then [GATT_SetIdleTimeout (peer_bda (tcb u j)) GATT_LINK_IDLE_TIMEOUT_WHEN_NO_APP
                      (transport (tcb u j)) False]
              else [])"
proof (intro conjI impI)
  have s'_eq: "s' = (if att_lcid (tcb s i) = L2CAP_ATT_CID
                then emit (GATT_SetIdleTimeout (peer_bda (tcb s i)) GATT_LINK_IDLE_TIMEOUT_WHEN_NO_APP
                         (transport (tcb s i)) False)
                   (emit (Eatt_Disconnect (peer_bda (tcb s i))) s1)
                else snd (gatt_disconnect env (Some i) s1))"
    using assms
    by (simp add: gatt_update_app_use_link_flag_def gatt_update_app_hold_link_status_def
        upd_tcb_def Let_def)
  {
    assume "att_lcid (tcb s i) = L2CAP_ATT_CID"
    then show "s' = emit (GATT_SetIdleTimeout (peer_bda (tcb s i)) GATT_LINK_IDLE_TIMEOUT_WHEN_NO_APP
                         (transport (tcb s i)) False)
                   (emit (Eatt_Disconnect (peer_bda (tcb s i))) s1)"
      using s'_eq by simp
  }
  {
    assume d: "att_lcid (tcb s i) \<noteq> L2CAP_ATT_CID"
    then show "s' = snd (gatt_disconnect env (Some i) s1)"
      using s'_eq by simp
    then show "filter is_SetIdleTimeout (trace s') = filter is_SetIdleTimeout (trace s)"
      using assms(3) by (simp add: gatt_disconnect_no_timer upd_tcb_def)
  }
  {
    assume d: "att_lcid (tcb s i) \<noteq> L2CAP_ATT_CID
            \<and> (ch_state (tcb s i) = GATT_CH_OPEN \<or> ch_state (tcb s i) = GATT_CH_CFG)"
    then show l2: "s' = gatt_l2cif_disconnect env (att_lcid (tcb s i)) s1"
      using s'_eq assms(3)
      by (auto simp: gatt_disconnect_def gatt_get_ch_state_def upd_tcb_def Let_def)
    have "trace s1 = trace s"
      using assms(3) by (simp add: upd_tcb_def)
    with l2 show "\<exists>rest. trace s' = trace s @ L2CA_DisconnectReq (att_lcid (tcb s i)) # rest"
      using gatt_l2cif_disconnect_trace [of env "att_lcid (tcb s i)" s1] by auto
  }
  {
    assume "att_lcid (tcb s i) \<noteq> L2CAP_ATT_CID
            \<and> ch_state (tcb s i) \<noteq> GATT_CH_OPEN \<and> ch_state (tcb s i) \<noteq> GATT_CH_CFG"
    then show "s' = s1"
      using s'_eq assms(3)
      by (auto simp: gatt_disconnect_def gatt_get_ch_state_def upd_tcb_def Let_def)
  }
  {
    assume *: "h \<in> app_hold_link (tcb u j) \<and> app_hold_link (tcb u j) \<noteq> {h}"
    then have "app_hold_link (tcb u j) - {h} \<noteq> {}"
      by auto
    with * show "gatt_update_app_use_link_flag env h (Some j) False c u
              = upd_tcb j (\<lambda>t. t\<lparr>app_hold_link := app_hold_link t - {h}\<rparr>) u"
      by (simp add: gatt_update_app_use_link_flag_def gatt_update_app_hold_link_status_def
          upd_tcb_def Let_def)
  }
  show "filter is_arm_no_app (trace (gatt_send_conn_cback env j u)) =
           filter is_arm_no_app (trace u) @
             (if att_lcid (tcb u j) = L2CAP_ATT_CID
                 \<and> app_hold_link (tcb (gatt_send_conn_cback env j u) j) = {}
              then [GATT_SetIdleTimeout (peer_bda (tcb u j)) GATT_LINK_IDLE_TIMEOUT_WHEN_NO_APP
                      (transport (tcb u j)) False]
              else [])"
    by (rule send_conn_arm)
qed

theorem release_last_holder_checked_witness:
  "gatt_update_app_use_link_flag env0 1 (Some 0) False True st0
     = st0\<lparr>tcb := (tcb st0)(0 := tcb_le\<lparr>app_hold_link := {}\<rparr>),
           trace := [Eatt_Disconnect 0x112233445566,
                     GATT_SetIdleTimeout 0x112233445566 GATT_LINK_IDLE_TIMEOUT_WHEN_NO_APP
                       BT_TRANSPORT_LE False]\<rparr>
   \<and> (\<exists>rest. trace (gatt_update_app_use_link_flag env0 2 (Some 1) False True st0)
               = L2CA_DisconnectReq 0x41 # rest)
   \<and> filter is_SetIdleTimeout (trace (gatt_update_app_use_link_flag env0 2 (Some 1) False True st0))
       = []
   \<and> gatt_update_app_use_link_flag env0 2 (Some 1) False True st_br_conn
       = st0\<lparr>tcb := (tcb st0)(1 := tcb_br\<lparr>ch_state := GATT_CH_CONN, app_hold_link := {}\<rparr>)\<rparr>
   \<and> gatt_update_app_use_link_flag env0 1 (Some 0) False True
        (st0\<lparr>tcb := (tcb st0)(0 := tcb_le\<lparr>app_hold_link := {1, 2}\<rparr>)\<rparr>)
       = st0\<lparr>tcb := (tcb st0)(0 := tcb_le\<lparr>app_hold_link := {2}\<rparr>)\<rparr>"
proof -
  have a: "app_hold_link (tcb st0 0) = {1}"
    "BTM_GetHCIConnHandle env0 (peer_bda (tcb st0 0)) (transport (tcb st0 0))
       \<noteq> GATT_INVALID_ACL_HANDLE"
    "att_lcid (tcb st0 0) = L2CAP_ATT_CID"
    by (simp_all add: fixture_defs const_defs)
  have b: "app_hold_link (tcb st0 1) = {2}"
    "BTM_GetHCIConnHandle env0 (peer_bda (tcb st0 1)) (transport (tcb st0 1))
       \<noteq> GATT_INVALID_ACL_HANDLE"
    "att_lcid (tcb st0 1) \<noteq> L2CAP_ATT_CID"
    "ch_state (tcb st0 1) = GATT_CH_CFG" "att_lcid (tcb st0 1) = 0x41" "trace st0 = []"
    by (simp_all add: fixture_defs const_defs)
  have d: "app_hold_link (tcb st_br_conn 1) = {2}"
    "BTM_GetHCIConnHandle env0 (peer_bda (tcb st_br_conn 1)) (transport (tcb st_br_conn 1))
       \<noteq> GATT_INVALID_ACL_HANDLE"
    "att_lcid (tcb st_br_conn 1) \<noteq> L2CAP_ATT_CID
       \<and> ch_state (tcb st_br_conn 1) \<noteq> GATT_CH_OPEN \<and> ch_state (tcb st_br_conn 1) \<noteq> GATT_CH_CFG"
    by (simp_all add: fixture_defs const_defs)
  let ?u = "st0\<lparr>tcb := (tcb st0)(0 := tcb_le\<lparr>app_hold_link := {1, 2}\<rparr>)\<rparr>"
  have c: "(1 :: tGATT_IF) \<in> app_hold_link (tcb ?u 0) \<and> app_hold_link (tcb ?u 0) \<noteq> {1}"
    by (auto simp: fixture_defs)
  have c': "upd_tcb 0 (\<lambda>t. t\<lparr>app_hold_link := app_hold_link t - {1}\<rparr>) ?u
               = st0\<lparr>tcb := (tcb st0)(0 := tcb_le\<lparr>app_hold_link := {2}\<rparr>)\<rparr>"
    by (simp add: upd_tcb_def fixture_defs)
  have a': "emit (GATT_SetIdleTimeout (peer_bda (tcb st0 0)) GATT_LINK_IDLE_TIMEOUT_WHEN_NO_APP
                         (transport (tcb st0 0)) False)
                   (emit (Eatt_Disconnect (peer_bda (tcb st0 0)))
                      (upd_tcb 0 (\<lambda>t. t\<lparr>app_hold_link := {}\<rparr>) st0))
            = st0\<lparr>tcb := (tcb st0)(0 := tcb_le\<lparr>app_hold_link := {}\<rparr>),
           trace := [Eatt_Disconnect 0x112233445566,
                     GATT_SetIdleTimeout 0x112233445566 GATT_LINK_IDLE_TIMEOUT_WHEN_NO_APP
                       BT_TRANSPORT_LE False]\<rparr>"
    by (simp add: emit_def upd_tcb_def fixture_defs)
  have d': "upd_tcb 1 (\<lambda>t. t\<lparr>app_hold_link := {}\<rparr>) st_br_conn
      = st0\<lparr>tcb := (tcb st0)(1 := tcb_br\<lparr>ch_state := GATT_CH_CONN, app_hold_link := {}\<rparr>)\<rparr>"
    by (simp add: upd_tcb_def fixture_defs)
  note A = release_last_holder_checked
    [OF a(1) a(2) refl refl, where h = 1 and u = "?u" and j = 0 and c = True]
  note B = release_last_holder_checked
    [OF b(1) b(2) refl refl, where h = 1 and u = "?u" and j = 0 and c = True]
  note D = release_last_holder_checked
    [OF d(1) d(2) refl refl, where h = 1 and u = "?u" and j = 0 and c = True]
  from A a(3) have r1: "gatt_update_app_use_link_flag env0 1 (Some 0) False True st0
      = emit (GATT_SetIdleTimeout (peer_bda (tcb st0 0)) GATT_LINK_IDLE_TIMEOUT_WHEN_NO_APP
                         (transport (tcb st0 0)) False)
                   (emit (Eatt_Disconnect (peer_bda (tcb st0 0)))
                      (upd_tcb 0 (\<lambda>t. t\<lparr>app_hold_link := {}\<rparr>) st0))"
    by blast
  from B b(3,4) have r2: "\<exists>rest. trace (gatt_update_app_use_link_flag env0 2 (Some 1) False True st0)
      = trace st0 @ L2CA_DisconnectReq (att_lcid (tcb st0 1)) # rest"
    by blast
  from B b(3) have r3: "filter is_SetIdleTimeout
      (trace (gatt_update_app_use_link_flag env0 2 (Some 1) False True st0))
      = filter is_SetIdleTimeout (trace st0)"
    by blast
  from A c have r4: "gatt_update_app_use_link_flag env0 1 (Some 0) False True ?u
      = upd_tcb 0 (\<lambda>t. t\<lparr>app_hold_link := app_hold_link t - {1}\<rparr>) ?u"
    by blast
  from D d(3) have r5: "gatt_update_app_use_link_flag env0 2 (Some 1) False True st_br_conn
      = upd_tcb 1 (\<lambda>t. t\<lparr>app_hold_link := {}\<rparr>) st_br_conn"
    by blast
  show ?thesis
    unfolding r1 r4 r5 a' c' d' using r2 r3 b(5,6) by simp
qed

text \<open>
  The claim as it stands fails in two ways. A release that does not ask for the link
  check: the last holder of a fixed-channel session with its ACL link up goes, and no
  timer is set. A release with the link check on a dynamic channel that is still
  Connecting: the last holder goes, the ACL link is up, and no disconnect request is
  sent.
\<close>

theorem release_last_holder_unchecked_counterexample:
  "app_hold_link (tcb st0 0) = {1}
   \<and> att_lcid (tcb st0 0) = L2CAP_ATT_CID
   \<and> BTM_GetHCIConnHandle env0 (peer_bda (tcb st0 0)) (transport (tcb st0 0))
        \<noteq> GATT_INVALID_ACL_HANDLE
   \<and> app_hold_link (tcb (gatt_update_app_use_link_flag env0 1 (Some 0) False False st0) 0) = {}
   \<and> trace (gatt_update_app_use_link_flag env0 1 (Some 0) False False st0) = []
   \<and> app_hold_link (tcb st_br_conn 1) = {2}
   \<and> att_lcid (tcb st_br_conn 1) \<noteq> L2CAP_ATT_CID
   \<and> BTM_GetHCIConnHandle env0 (peer_bda (tcb st_br_conn 1)) (transport (tcb st_br_conn 1))
        \<noteq> GATT_INVALID_ACL_HANDLE
   \<and> app_hold_link (tcb (gatt_update_app_use_link_flag env0 2 (Some 1) False True st_br_conn) 1) = {}
   \<and> trace (gatt_update_app_use_link_flag env0 2 (Some 1) False True st_br_conn) = []"
  by (simp add: fixture_defs const_defs gatt_update_app_use_link_flag_def
      gatt_update_app_hold_link_status_def upd_tcb_def gatt_disconnect_def
      gatt_get_ch_state_def)

section \<open>Simultaneous connections on the AVCTP browsing channel\<close>

text \<open>
  Claim C1. An inbound connect indication for a peer whose browsing channel is already
  allocated: when the channel was created passive and is not Open, the indication is
  accepted, the old channel id becomes the conflict id, the new id becomes the channel id
  and the state is Configuring, and nothing is sent; when the channel is not passive or
  is Open, a disconnect request for the new id is sent and the channel keeps its ids and
  state. The callback stores the address of the indication in the channel before the
  test, which for the channel of that peer is the address it holds. A GATT session has no
  role: an indication for an existing classic session is answered by a disconnect request
  for the new id, and the session is unchanged.
\<close>

theorem avct_connect_ind_existing_session:
  assumes "avct_lcb_by_bd env (lcb s) bd_addr = Some l"
    and "b = avct_bcb_by_lcb env l"
    and "bcb_allocated (bcb s b) \<noteq> 0"
    and "s0 = upd_bcb b (\<lambda>x. x\<lparr>bcb_peer_addr := bd_addr\<rparr>) s"
  shows "(avct_l2c_br_is_passive env s0 b \<and> bcb_ch_state (bcb s b) \<noteq> AVCT_CH_OPEN \<longrightarrow>
            avct_l2c_br_connect_ind_cback env bd_addr lcid s
              = upd_bcb b (\<lambda>x. x\<lparr>conflict_lcid := ch_lcid (bcb s b), ch_lcid := lcid,
                                  bcb_ch_state := AVCT_CH_CFG\<rparr>) s0)
       \<and> (\<not> avct_l2c_br_is_passive env s0 b \<or> bcb_ch_state (bcb s b) = AVCT_CH_OPEN \<longrightarrow>
            avct_l2c_br_connect_ind_cback env bd_addr lcid s
              = avct_emit (L2CA_DisconnectReq lcid) s0)
       \<and> (bcb_peer_addr (bcb s b) = bd_addr \<longrightarrow> s0 = s)
       \<and> (gatt_find_tcb_by_addr genv (tcb gs) a BT_TRANSPORT_BR_EDR = Some i \<longrightarrow>
            gatt_l2cif_connect_ind_cback genv a cid gs = emit (L2CA_DisconnectReq cid) gs)"
proof (intro conjI impI)
  assume "avct_l2c_br_is_passive env s0 b \<and> bcb_ch_state (bcb s b) \<noteq> AVCT_CH_OPEN"
  with assms show "avct_l2c_br_connect_ind_cback env bd_addr lcid s
              = upd_bcb b (\<lambda>x. x\<lparr>conflict_lcid := ch_lcid (bcb s b), ch_lcid := lcid,
                                  bcb_ch_state := AVCT_CH_CFG\<rparr>) s0"
    by (simp add: avct_l2c_br_connect_ind_cback_def upd_bcb_def L2CAP_CONN_OK_def
        L2CAP_CONN_NO_RESOURCES_def Let_def)
next
  assume "\<not> avct_l2c_br_is_passive env s0 b \<or> bcb_ch_state (bcb s b) = AVCT_CH_OPEN"
  with assms show "avct_l2c_br_connect_ind_cback env bd_addr lcid s
              = avct_emit (L2CA_DisconnectReq lcid) s0"
    by (auto simp add: avct_l2c_br_connect_ind_cback_def upd_bcb_def L2CAP_CONN_OK_def
        L2CAP_CONN_NO_RESOURCES_def Let_def)
next
  assume h: "bcb_peer_addr (bcb s b) = bd_addr"
  have "(bcb s b)\<lparr>bcb_peer_addr := bd_addr\<rparr> = bcb s b"
    unfolding h [symmetric] by simp
  then show "s0 = s"
    using assms(4) by (simp add: upd_bcb_def)
next
  assume "gatt_find_tcb_by_addr genv (tcb gs) a BT_TRANSPORT_BR_EDR = Some i"
  then show "gatt_l2cif_connect_ind_cback genv a cid gs = emit (L2CA_DisconnectReq cid) gs"
    by (simp add: gatt_l2cif_connect_ind_cback_def L2CAP_CONN_OK_def L2CAP_CONN_NO_RESOURCES_def)
qed

theorem avct_connect_ind_existing_session_witness:
  "avct_l2c_br_connect_ind_cback avct_env0 0x112233445566 0x60 avct_st0
     = avct_st0\<lparr>bcb := (bcb avct_st0)(0 := bcb0\<lparr>conflict_lcid := 0x50, ch_lcid := 0x60,
                                                  bcb_ch_state := AVCT_CH_CFG\<rparr>)\<rparr>
   \<and> avct_l2c_br_connect_ind_cback avct_env0 0x112233445566 0x60 (avct_st0\<lparr>ccb := []\<rparr>)
       = avct_st0\<lparr>ccb := [], avct_trace := [L2CA_DisconnectReq 0x60]\<rparr>
   \<and> gatt_l2cif_connect_ind_cback env0 0xA0B0C0D0E0F0 0x70 st0
       = st0\<lparr>trace := [L2CA_DisconnectReq 0x70]\<rparr>"
proof -
  let ?n = "avct_st0\<lparr>ccb := []\<rparr>"
  have p: "avct_lcb_by_bd avct_env0 (lcb avct_st0) 0x112233445566 = Some 0"
    "0 = avct_bcb_by_lcb avct_env0 0" "bcb_allocated (bcb avct_st0 0) \<noteq> 0"
    by (simp_all add: fixture_defs)
  have q: "avct_lcb_by_bd avct_env0 (lcb ?n) 0x112233445566 = Some 0"
    "bcb_allocated (bcb ?n 0) \<noteq> 0"
    by (simp_all add: fixture_defs)
  have same: "upd_bcb 0 (\<lambda>x. x\<lparr>bcb_peer_addr := 0x112233445566\<rparr>) avct_st0 = avct_st0"
    "upd_bcb 0 (\<lambda>x. x\<lparr>bcb_peer_addr := 0x112233445566\<rparr>) ?n = ?n"
    by (simp_all add: upd_bcb_def fixture_defs fun_eq_iff)
  have pas: "avct_l2c_br_is_passive avct_env0 avct_st0 0
      \<and> bcb_ch_state (bcb avct_st0 0) \<noteq> AVCT_CH_OPEN"
    by (simp add: avct_l2c_br_is_passive_def fixture_defs const_defs)
  have act: "\<not> avct_l2c_br_is_passive avct_env0 ?n 0"
    by (simp add: avct_l2c_br_is_passive_def fixture_defs)
  have g: "gatt_find_tcb_by_addr env0 (tcb st0) 0xA0B0C0D0E0F0 BT_TRANSPORT_BR_EDR = Some 1"
    by (simp add: fixture_defs)
  note A = avct_connect_ind_existing_session
    [OF p(1) p(2) p(3) same(1) [symmetric], where lcid = "0x60" and genv = env0 and gs = st0
       and a = "0xA0B0C0D0E0F0" and cid = "0x70" and i = 1]
  note B = avct_connect_ind_existing_session
    [OF q(1) p(2) q(2) same(2) [symmetric], where lcid = "0x60" and genv = env0 and gs = st0
       and a = "0xA0B0C0D0E0F0" and cid = "0x70" and i = 1]
  from A pas have r1: "avct_l2c_br_connect_ind_cback avct_env0 0x112233445566 0x60 avct_st0
      = upd_bcb 0 (\<lambda>x. x\<lparr>conflict_lcid := ch_lcid (bcb avct_st0 0), ch_lcid := 0x60,
                           bcb_ch_state := AVCT_CH_CFG\<rparr>) avct_st0"
    by blast
  from B act have r2: "avct_l2c_br_connect_ind_cback avct_env0 0x112233445566 0x60 ?n
      = avct_emit (L2CA_DisconnectReq 0x60) ?n"
    by blast
  from A g have r3: "gatt_l2cif_connect_ind_cback env0 0xA0B0C0D0E0F0 0x70 st0
      = emit (L2CA_DisconnectReq 0x70) st0"
    by blast
  show ?thesis
    unfolding r1 r2 r3
    by (simp add: upd_bcb_def avct_emit_def emit_def fixture_defs)
qed

text \<open>
  Claim C2. A connect confirm that carries the conflict id of a channel that is not in
  the Connecting state: with result OK a disconnect request for that id is sent, with any
  other result nothing is sent; in both cases the conflict id is reset to zero and the
  channel keeps its id and its state, and no event reaches the channel's clients.
\<close>

theorem avct_connect_cfm_conflict_handle:
  assumes "avct_bcb_by_lcid env (bcb s) lcid = Some b"
    and "conflict_lcid (bcb s b) = lcid"
    and "bcb_ch_state (bcb s b) \<noteq> AVCT_CH_CONN"
    and "s' = avct_l2c_br_connect_cfm_cback env lcid result s"
  shows "avct_trace s' =
           avct_trace s @ (if result = L2CAP_CONN_OK then [L2CA_DisconnectReq lcid] else [])
       \<and> conflict_lcid (bcb s' b) = 0
       \<and> bcb_ch_state (bcb s' b) = bcb_ch_state (bcb s b)
       \<and> ch_lcid (bcb s' b) = ch_lcid (bcb s b)
       \<and> s' = s\<lparr>bcb := (bcb s)(b := (bcb s b)\<lparr>conflict_lcid := 0\<rparr>),
                avct_trace := avct_trace s'\<rparr>"
  using assms
  by (simp add: avct_l2c_br_connect_cfm_cback_def upd_bcb_def avct_emit_def)

theorem avct_connect_cfm_conflict_handle_witness:
  "avct_l2c_br_connect_cfm_cback avct_env0 0x50 L2CAP_CONN_OK avct_st_conflict
     = avct_st_conflict\<lparr>bcb := (bcb avct_st_conflict)
                                  (0 := (bcb avct_st_conflict 0)\<lparr>conflict_lcid := 0\<rparr>),
                         avct_trace := [L2CA_DisconnectReq 0x50]\<rparr>
   \<and> bcb_ch_state (bcb (avct_l2c_br_connect_cfm_cback avct_env0 0x50 L2CAP_CONN_OK
                           avct_st_conflict) 0) = AVCT_CH_CFG
   \<and> ch_lcid (bcb (avct_l2c_br_connect_cfm_cback avct_env0 0x50 L2CAP_CONN_OK
                      avct_st_conflict) 0) = 0x60"
proof -
  have p: "avct_bcb_by_lcid avct_env0 (bcb avct_st_conflict) 0x50 = Some 0"
    "conflict_lcid (bcb avct_st_conflict 0) = 0x50"
    "bcb_ch_state (bcb avct_st_conflict 0) \<noteq> AVCT_CH_CONN"
    by (simp_all add: fixture_defs)
  have v: "bcb_ch_state (bcb avct_st_conflict 0) = AVCT_CH_CFG"
    "ch_lcid (bcb avct_st_conflict 0) = 0x60" "avct_trace avct_st_conflict = []"
    by (simp_all add: fixture_defs)
  let ?r = "avct_l2c_br_connect_cfm_cback avct_env0 0x50 L2CAP_CONN_OK avct_st_conflict"
  note A = avct_connect_cfm_conflict_handle [OF p refl, of L2CAP_CONN_OK]
  have tr: "avct_trace ?r = [L2CA_DisconnectReq 0x50]"
    using A v by simp
  have "?r = avct_st_conflict\<lparr>bcb := (bcb avct_st_conflict)
                                  (0 := (bcb avct_st_conflict 0)\<lparr>conflict_lcid := 0\<rparr>),
                         avct_trace := avct_trace ?r\<rparr>"
    using A by blast
  then have r1: "?r = avct_st_conflict\<lparr>bcb := (bcb avct_st_conflict)
                                  (0 := (bcb avct_st_conflict 0)\<lparr>conflict_lcid := 0\<rparr>),
                         avct_trace := [L2CA_DisconnectReq 0x50]\<rparr>"
    by (simp only: tr)
  have r2: "bcb_ch_state (bcb ?r 0) = AVCT_CH_CFG" "ch_lcid (bcb ?r 0) = 0x60"
    using A v by simp_all
  show ?thesis
    using r1 r2 by blast
qed

section \<open>Incoming data\<close>




section \<open>Congestion relay\<close>

lemma congestion_loop_trace:
  "gatt_channel_congestion_loop (Some i) c rs s =
     Some (s\<lparr>trace := trace s @
              map (\<lambda>r. Congestion_cb (gatt_if r)
                         (GATT_CREATE_CONN_ID (tcb_idx (tcb s i)) (gatt_if r)) c)
                (filter (\<lambda>r. reg_in_use r \<and> p_congestion_cb r) rs)\<rparr>)"
  by (induction rs arbitrary: s) (simp_all add: emit_def)

text \<open>
  Claim C6. A congestion event for a session adds to the trace, when the session becomes
  uncongested, first the signal to the message dispatcher to send the next queued
  command, and then, in registry order, one congestion callback for every registrant in
  use that has such a callback, each with the connection id packed from the slot index of
  the session and the client id, and with the new congestion state. The LE congestion
  callback does this for the session it finds for the address.
\<close>

theorem congestion_resume_before_callbacks:
  "gatt_channel_congestion (Some i) congested s =
     Some (s\<lparr>trace := trace s @ (if \<not> congested then [Gatt_cl_send_next_cmd_inq i] else []) @
              map (\<lambda>r. Congestion_cb (gatt_if r)
                         (GATT_CREATE_CONN_ID (tcb_idx (tcb s i)) (gatt_if r)) congested)
                (filter (\<lambda>r. reg_in_use r \<and> p_congestion_cb r) (cl_rcb s))\<rparr>)
   \<and> (gatt_find_tcb_by_addr env (tcb s) remote_bda BT_TRANSPORT_LE = Some i \<longrightarrow>
        gatt_le_cong_cback env remote_bda congested s
          = gatt_channel_congestion (Some i) congested s)"
  by (simp add: gatt_channel_congestion_def gatt_le_cong_cback_def congestion_loop_trace emit_def)

theorem congestion_resume_before_callbacks_witness:
  "gatt_le_cong_cback env0 0x112233445566 False st0
     = Some (st0\<lparr>trace := [Gatt_cl_send_next_cmd_inq 0, Congestion_cb 1 1 False]\<rparr>)"
proof -
  have f: "gatt_find_tcb_by_addr env0 (tcb st0) 0x112233445566 BT_TRANSPORT_LE = Some 0"
    by (simp add: fixture_defs)
  note A = congestion_resume_before_callbacks
    [where env = env0 and s = st0 and i = 0 and congested = False
       and remote_bda = "0x112233445566"]
  from A f have "gatt_le_cong_cback env0 0x112233445566 False st0 =
     Some (st0\<lparr>trace := trace st0 @ (if \<not> False then [Gatt_cl_send_next_cmd_inq 0] else []) @
              map (\<lambda>r. Congestion_cb (gatt_if r)
                         (GATT_CREATE_CONN_ID (tcb_idx (tcb st0 0)) (gatt_if r)) False)
                (filter (\<lambda>r. reg_in_use r \<and> p_congestion_cb r) (cl_rcb st0))\<rparr>)"
    by simp
  then show ?thesis
    by (simp add: fixture_defs conn_id_examples)
qed

section \<open>Connection callback fan-out\<close>

text \<open>
  Claim C8, as amended. On session open every registrant in use that has a connection
  callback, matching or not, gets the callback with the peer address, the connection id
  packed from the slot index of the session and the client id, the connected flag, the
  reason OK and the transport of the session, in registry order. A registrant in use
  becomes a holder when the legacy connection manager is in use and names the client
  among the applications connecting to the peer, or when the reconnect fix is enabled and
  the direct-connect request set of the registrant has the peer; the holder set grows by
  exactly these clients.
\<close>

theorem conn_cback_fanout:
  "app_hold_link (tcb (gatt_send_conn_cback env i s) i) =
     app_hold_link (tcb s i) \<union>
       set (map gatt_if (filter (\<lambda>r. reg_in_use r \<and>
              (\<not> use_unified_connection_manager env
                 \<and> gatt_if r \<in> get_apps_connecting_to env (peer_bda (tcb s i))
               \<or> gatt_reconnect_on_bt_on_fix env
                 \<and> peer_bda (tcb s i) \<in> direct_connect_request r)) (cl_rcb s)))
   \<and> filter is_Conn_cb (trace (gatt_send_conn_cback env i s)) =
       filter is_Conn_cb (trace s) @
         map (\<lambda>r. Conn_cb (gatt_if r) (peer_bda (tcb s i))
                (GATT_CREATE_CONN_ID (tcb_idx (tcb s i)) (gatt_if r)) True GATT_CONN_OK
                (transport (tcb s i)))
           (filter (\<lambda>r. reg_in_use r \<and> p_conn_cb r) (cl_rcb s))"
proof
  let ?apps = "if use_unified_connection_manager env then {}
               else get_apps_connecting_to env (peer_bda (tcb s i))"
  have m: "matching env ?apps (peer_bda (tcb s i)) =
      (\<lambda>r. reg_in_use r \<and>
              (\<not> use_unified_connection_manager env
                 \<and> gatt_if r \<in> get_apps_connecting_to env (peer_bda (tcb s i))
               \<or> gatt_reconnect_on_bt_on_fix env
                 \<and> peer_bda (tcb s i) \<in> direct_connect_request r))"
    by (auto simp: matching_def fun_eq_iff)
  show "app_hold_link (tcb (gatt_send_conn_cback env i s) i) =
     app_hold_link (tcb s i) \<union>
       set (map gatt_if (filter (\<lambda>r. reg_in_use r \<and>
              (\<not> use_unified_connection_manager env
                 \<and> gatt_if r \<in> get_apps_connecting_to env (peer_bda (tcb s i))
               \<or> gatt_reconnect_on_bt_on_fix env
                 \<and> peer_bda (tcb s i) \<in> direct_connect_request r)) (cl_rcb s)))"
    unfolding m [symmetric] by (simp add: send_conn_tcb loop_tcb)
  show "filter is_Conn_cb (trace (gatt_send_conn_cback env i s)) =
       filter is_Conn_cb (trace s) @
         map (\<lambda>r. Conn_cb (gatt_if r) (peer_bda (tcb s i))
                (GATT_CREATE_CONN_ID (tcb_idx (tcb s i)) (gatt_if r)) True GATT_CONN_OK
                (transport (tcb s i)))
           (filter (\<lambda>r. reg_in_use r \<and> p_conn_cb r) (cl_rcb s))"
    by (simp add: send_conn_trace Let_def loop_conn)
qed

theorem conn_cback_fanout_witness:
  "app_hold_link (tcb (gatt_send_conn_cback (env0\<lparr>gatt_reconnect_on_bt_on_fix := True\<rparr>) 0
                         st_idle) 0) = {1}
   \<and> filter is_Conn_cb (trace (gatt_send_conn_cback (env0\<lparr>gatt_reconnect_on_bt_on_fix := True\<rparr>)
                                  0 st_idle))
       = [Conn_cb 1 0x112233445566 1 True GATT_CONN_OK BT_TRANSPORT_LE,
          Conn_cb 2 0x112233445566 2 True GATT_CONN_OK BT_TRANSPORT_LE]"
  using conn_cback_fanout [of "env0\<lparr>gatt_reconnect_on_bt_on_fix := True\<rparr>" 0 st_idle]
  by (simp add: fixture_defs conn_id_examples)

text \<open>
  The claim as it stands fails under the unified connection manager: the fan-out then
  starts from an empty set of connecting applications, and with the reconnect fix off the
  registrant 1, whose direct-connect request set has the peer and which the connection
  manager names for the peer, is not made a holder although its callback runs.
\<close>

theorem conn_cback_fanout_unified_counterexample:
  "reg1 \<in> set (cl_rcb st_idle) \<and> reg_in_use reg1
   \<and> peer_bda (tcb st_idle 0) \<in> direct_connect_request reg1
   \<and> gatt_if reg1 \<in> get_apps_connecting_to env_unified (peer_bda (tcb st_idle 0))
   \<and> gatt_if reg1 \<notin> app_hold_link (tcb (gatt_send_conn_cback env_unified 0 st_idle) 0)
   \<and> trace (gatt_send_conn_cback env_unified 0 st_idle)
       = [Conn_cb 1 0x112233445566 1 True GATT_CONN_OK BT_TRANSPORT_LE,
          Conn_cb 2 0x112233445566 2 True GATT_CONN_OK BT_TRANSPORT_LE,
          GATT_SetIdleTimeout 0x112233445566 GATT_LINK_IDLE_TIMEOUT_WHEN_NO_APP
            BT_TRANSPORT_LE False]"
  by (simp add: fixture_defs env_unified_def const_defs gatt_send_conn_cback_def
      gatt_send_conn_cback_reg_def emit_def conn_id_examples)

section \<open>Connection timeout\<close>




lemma connection_timeout_example:
  "trace (on_connection_timed_out env0 1 0x112233445566 st0)
     = [Arbiter_OnLeDisconnect 0,
        Gatt_cleanup_upon_disc 0x112233445566 0x08 BT_TRANSPORT_LE]"
  by (simp add: on_connection_timed_out_def gatt_le_connect_cback_def fixture_defs emit_def
      gatt_is_bda_in_the_srv_chg_clt_list_def)

section \<open>Service-changed indication on session open\<close>

lemma chk_srv_chg_sends:
  "srv_changed c \<Longrightarrow> handle_of_h_r s \<noteq> 0 \<Longrightarrow>
   gatt_profile_find_conn_id_by_bd_addr env (bda c) \<noteq> GATT_INVALID_CONN_ID \<Longrightarrow>
   gatt_chk_srv_chg env c s =
     emit (GATTS_HandleValueIndication (gatt_profile_find_conn_id_by_bd_addr env (bda c))
             (handle_of_h_r s) GATT_SIZE_OF_SRV_CHG_HNDL_RANGE
             (UINT16_TO_STREAM (sGATT_DEFAULT_START_HANDLE env)
                @ UINT16_TO_STREAM (sGATT_LAST_HANDLE env))) s"
  by (simp add: gatt_chk_srv_chg_def gatt_send_srv_chg_ind_def Let_def)

lemma chk_srv_chg_ignores_interop:
  "gatt_chk_srv_chg (env\<lparr>interop_match_name := f, btif_storage_get_stored_remote_name := n\<rparr>) c s
     = gatt_chk_srv_chg env c s"
  by (simp add: gatt_chk_srv_chg_def gatt_send_srv_chg_ind_def Let_def)

lemma proc_srv_chg_suppressed:
  "btif_storage_get_stored_remote_name env (peer_bda (tcb s i)) = Some n \<Longrightarrow>
   interop_match_name env n \<Longrightarrow> gatt_proc_srv_chg_body env i s = s"
  by (simp add: gatt_proc_srv_chg_body_def Let_def)

text \<open>
  Claim C7. The code departs from the claim. The check on session open sends the
  service-changed indication whenever the flag of the peer is set, without a look at the
  stored name or at the suppression list, which only the processing of a database change
  consults (\<open>proc_srv_chg_suppressed\<close>). Here the LE session of a peer whose stored name
  matches the list opens with the flag set, and the indication, four bytes of handle
  range, is the last event of the trace.
\<close>

theorem srv_chg_ind_sent_to_suppressed_peer:
  "gatt_is_bda_in_the_srv_chg_clt_list st_conn 0x112233445566
     = Some \<lparr>bda = 0x112233445566, srv_changed = True\<rparr>
   \<and> btif_storage_get_stored_remote_name env0 0x112233445566 = Some ''Peer''
   \<and> interop_match_name env0 ''Peer''
   \<and> ch_state (tcb (gatt_le_connect_cback env0 L2CAP_ATT_CID 0x112233445566 True 0
                       BT_TRANSPORT_LE st_conn) 0) = GATT_CH_OPEN
   \<and> trace (gatt_le_connect_cback env0 L2CAP_ATT_CID 0x112233445566 True 0 BT_TRANSPORT_LE st_conn)
       = [Conn_cb 1 0x112233445566 1 True 0 BT_TRANSPORT_LE,
          Conn_cb 2 0x112233445566 2 True 0 BT_TRANSPORT_LE,
          On_connection_complete 0x112233445566,
          GATT_SetIdleTimeout 0x112233445566 GATT_LINK_NO_IDLE_TIMEOUT BT_TRANSPORT_LE True,
          GATTS_HandleValueIndication 7 3 4 [1, 0, 0xFF, 0xFF]]"
  by (simp add: fixture_defs const_defs gatt_le_connect_cback_def Let_def
      gatt_is_bda_in_the_srv_chg_clt_list_def gatt_get_ch_state_def gatt_set_ch_state_def
      upd_tcb_def gatt_send_conn_cback_def gatt_send_conn_cback_reg_def emit_def
      gatt_chk_srv_chg_def gatt_send_srv_chg_ind_def gatt_le_connect_cback_connected_def
      check_cached_model_name_def conn_id_examples stream_examples)

end
